theory Spec2Isabelle
  imports Main
begin

section \<open>Values of the program\<close>

text \<open>
  Go error values. \<open>Err m\<close> is an error with message \<open>m\<close>; \<open>Wrap p e\<close> is what
  \<^verbatim>\<open>fmt.Errorf("p: %v", e)\<close> and the \<^verbatim>\<open>...Error(name, p, e)\<close> helpers build: a stage label
  and the underlying cause; \<open>RetriableError e\<close> is \<^verbatim>\<open>&errors.RetriableError{Err: e}\<close>;
  \<open>Panic m\<close> stands for a run-time panic (index out of range).
\<close>

datatype error = Err string | Wrap string error | RetriableError error | Panic string

text \<open>
  Modelled from the spec: the VM states of the driver library (section 3, VMState) and the
  certificate probe's states (CertExpiryState). \<open>state_String\<close> is \<^verbatim>\<open>State.String()\<close>.
\<close>

datatype state = Running | Stopped | Saved | Paused | Error | Timeout | Missing

fun state_String :: "state \<Rightarrow> string" where
  "state_String Running = ''Running''"
| "state_String Stopped = ''Stopped''"
| "state_String Saved = ''Saved''"
| "state_String Paused = ''Paused''"
| "state_String Error = ''Error''"
| "state_String Timeout = ''Timeout''"
| "state_String Missing = ''Missing''"

datatype CertExpiryState = Unknown | CertNotExpired | CertExpired

definition IsRunning :: "state \<Rightarrow> bool" where
  "IsRunning st = (st = Running)"

text \<open>
  The persisted descriptor of an instance (\<^verbatim>\<open>host.Host\<close>): its name, the driver's name and the
  driver's serialised configuration.
\<close>

record host =
  HostName :: string
  HostDriverName :: string
  RawDriver :: string

text \<open>
  The fields of \<^verbatim>\<open>bundle.CrcBundleInfo\<close> that this file reads, each the value of the
  accessor of that name; \<open>Nodes\<close> holds the kernel command line of each node.
\<close>

record CrcBundleInfo =
  BaseDomain :: string
  OpenshiftVersion :: string
  DiskImagePath :: string
  SSHKeyPath :: string
  KubeConfigPath :: string
  InitramfsPath :: string
  KernelPath :: string
  Nodes :: "string list"

text \<open>
  Modelled from the spec: \<^verbatim>\<open>network.ProxyConfig\<close> (section 3 and 4.2), which is not in this
  file: the two proxy URLs and the no-proxy list; it is enabled iff any proxy URL is set,
  and \<^verbatim>\<open>AddNoProxy\<close> adds an entry to the list (duplicates are tolerated).
\<close>

record ProxyConfig =
  HTTPProxy :: string
  HTTPSProxy :: string
  noProxy :: "string list"

definition IsEnabled :: "ProxyConfig \<Rightarrow> bool" where
  "IsEnabled p = (HTTPProxy p \<noteq> [] \<or> HTTPSProxy p \<noteq> [])"

definition AddNoProxy :: "string \<Rightarrow> ProxyConfig \<Rightarrow> ProxyConfig" where
  "AddNoProxy entry p = p\<lparr>noProxy := noProxy p @ [entry]\<rparr>"

record ClusterConfig =
  KubeConfig :: string
  KubeAdminPass :: string
  WebConsoleURL :: string
  ClusterAPI :: string
  ProxyConfigOf :: "ProxyConfig option"

text \<open>Modelled from the spec: the operator health snapshot of \<^verbatim>\<open>cluster.Status\<close>.\<close>

record Status =
  Available :: bool
  Degraded :: bool
  Progressing :: bool

section \<open>The world outside the program\<close>

text \<open>
  Every call that leaves this file (driver, instance store, SSH, cluster client, service
  manager, logging, sleep) is recorded as an event, in order.
\<close>

datatype event =
    Call string "string list"
  | Sleep nat
  | Log string string

text \<open>
  The state the calls act on: the persisted instance records by name, the hypervisor's
  own state (whatever the driver keeps, of any type \<open>'h\<close>), and the time waited in
  \<^verbatim>\<open>time.Sleep\<close>, in nanoseconds.
\<close>

record 'h sys =
  machines :: "string \<rightharpoonup> host"
  hyp :: 'h
  now :: nat

type_synonym 'h world = "'h sys \<times> event list"

text \<open>\<^verbatim>\<open>config.MachineConfig\<close>: the parameters of a new instance.\<close>

record MachineConfig =
  mc_Name :: string
  mc_BundleName :: string
  mc_VMDriver :: string
  mc_CPUs :: int
  mc_Memory :: int
  mc_DiskPathURL :: string
  mc_SSHKeyPath :: string
  mc_KernelCmdLine :: string
  mc_Initramfs :: string
  mc_Kernel :: string

text \<open>
  The collaborators are not part of this file, so what they return is a parameter: for
  each kind of result, a function of the current state, the name of the function called
  and its string arguments. A result keeps Go's shape: a value beside an error where the
  source inspects the value whatever the error is, a sum where it is a pointer.
  The constants of package \<^verbatim>\<open>constants\<close> are parameters too.
\<close>

record 'h env =
  ext_error :: "'h sys \<Rightarrow> string \<Rightarrow> string list \<Rightarrow> error option"
  ext_string :: "'h sys \<Rightarrow> string \<Rightarrow> string list \<Rightarrow> string \<times> error option"
  ext_bool :: "'h sys \<Rightarrow> string \<Rightarrow> string list \<Rightarrow> bool \<times> error option"
  ext_mutate :: "'h sys \<Rightarrow> string \<Rightarrow> host \<Rightarrow> error option \<times> host \<times> 'h"
  ext_state :: "'h sys \<Rightarrow> host \<Rightarrow> state \<times> error option"
  ext_bundle :: "'h sys \<Rightarrow> string \<Rightarrow> string \<Rightarrow> error + CrcBundleInfo"
  ext_newhost :: "'h sys \<Rightarrow> string \<Rightarrow> string \<Rightarrow> string \<Rightarrow> error + host"
  ext_certs :: "'h sys \<Rightarrow> CertExpiryState \<times> error option"
  ext_operators :: "'h sys \<Rightarrow> Status \<times> error option"
  ext_usage :: "'h sys \<Rightarrow> (int \<times> int) \<times> error option"
  ext_proxy :: "'h sys \<Rightarrow> error + ProxyConfig"
  json_driverOptions :: "MachineConfig \<Rightarrow> error + string"
  LogFilePath :: string
  DefaultWebConsoleURL :: string
  DefaultAPIURL :: string
  PrivateKeyPath :: string
  PublicKeyPath :: string
  MachineInstanceDir :: string
  DefaultDriver :: string
  DefaultDriverPath :: string

definition emit :: "event \<Rightarrow> 'h world \<Rightarrow> 'h world" where
  "emit e w = (fst w, snd w @ [e])"

definition call_error ::
  "'h env \<Rightarrow> string \<Rightarrow> string list \<Rightarrow> 'h world \<Rightarrow> error option \<times> 'h world" where
  "call_error env f args w = (ext_error env (fst w) f args, emit (Call f args) w)"

definition call_string ::
  "'h env \<Rightarrow> string \<Rightarrow> string list \<Rightarrow> 'h world \<Rightarrow> (string \<times> error option) \<times> 'h world" where
  "call_string env f args w = (ext_string env (fst w) f args, emit (Call f args) w)"

definition call_bool ::
  "'h env \<Rightarrow> string \<Rightarrow> string list \<Rightarrow> 'h world \<Rightarrow> (bool \<times> error option) \<times> 'h world" where
  "call_bool env f args w = (ext_bool env (fst w) f args, emit (Call f args) w)"

definition logging :: "string \<Rightarrow> string \<Rightarrow> 'h world \<Rightarrow> 'h world" where
  "logging level msg w = emit (Log level msg) w"

definition time_Sleep :: "nat \<Rightarrow> 'h world \<Rightarrow> 'h world" where
  "time_Sleep d w = ((fst w)\<lparr>now := now (fst w) + d\<rparr>, snd w @ [Sleep d])"

definition Second :: nat where
  "Second = 1000000000"

definition Minute :: nat where
  "Minute = 60 * Second"

subsection \<open>The instance store and the driver\<close>

text \<open>
  The store of the machine library (spec section 6, InstanceStore): \<open>Load\<close> reads the
  record of a name, \<open>Save\<close> writes it, \<open>Remove\<close> deletes it; each may fail, and a failed
  call leaves the records as they are. A driver call acts on the hypervisor only.
\<close>

definition api_Exists :: "'h env \<Rightarrow> string \<Rightarrow> 'h world \<Rightarrow> (bool \<times> error option) \<times> 'h world" where
  "api_Exists env name w =
     (case ext_error env (fst w) ''api.Exists'' [name] of
        Some e \<Rightarrow> ((False, Some e), emit (Call ''api.Exists'' [name]) w)
      | None \<Rightarrow> ((machines (fst w) name \<noteq> None, None), emit (Call ''api.Exists'' [name]) w))"

definition api_Load :: "'h env \<Rightarrow> string \<Rightarrow> 'h world \<Rightarrow> (error + host) \<times> 'h world" where
  "api_Load env name w =
     (case ext_error env (fst w) ''api.Load'' [name] of
        Some e \<Rightarrow> (Inl e, emit (Call ''api.Load'' [name]) w)
      | None \<Rightarrow>
          (case machines (fst w) name of
             None \<Rightarrow> (Inl (Err ''Host does not exist''), emit (Call ''api.Load'' [name]) w)
           | Some h \<Rightarrow> (Inr h, emit (Call ''api.Load'' [name]) w)))"

definition api_Save :: "'h env \<Rightarrow> host \<Rightarrow> 'h world \<Rightarrow> error option \<times> 'h world" where
  "api_Save env h w =
     (case ext_error env (fst w) ''api.Save'' [HostName h] of
        Some e \<Rightarrow> (Some e, emit (Call ''api.Save'' [HostName h]) w)
      | None \<Rightarrow>
          (None, ((fst w)\<lparr>machines := (machines (fst w))(HostName h \<mapsto> h)\<rparr>,
                  snd w @ [Call ''api.Save'' [HostName h]])))"

definition api_Remove :: "'h env \<Rightarrow> string \<Rightarrow> 'h world \<Rightarrow> error option \<times> 'h world" where
  "api_Remove env name w =
     (case ext_error env (fst w) ''api.Remove'' [name] of
        Some e \<Rightarrow> (Some e, emit (Call ''api.Remove'' [name]) w)
      | None \<Rightarrow>
          (None, ((fst w)\<lparr>machines := (machines (fst w))(name := None)\<rparr>,
                  snd w @ [Call ''api.Remove'' [name]])))"

definition driver_call ::
  "'h env \<Rightarrow> string \<Rightarrow> host \<Rightarrow> 'h world \<Rightarrow> (error option \<times> host) \<times> 'h world" where
  "driver_call env f h w =
     (case ext_mutate env (fst w) f h of
        (err, h', hy) \<Rightarrow> ((err, h'), ((fst w)\<lparr>hyp := hy\<rparr>, snd w @ [Call f [HostName h]])))"

definition Driver_GetState :: "'h env \<Rightarrow> host \<Rightarrow> 'h world \<Rightarrow> (state \<times> error option) \<times> 'h world" where
  "Driver_GetState env h w =
     (ext_state env (fst w) h, emit (Call ''Driver.GetState'' [HostName h]) w)"

section \<open>The machine library client\<close>

text \<open>\<^verbatim>\<open>setMachineLogging\<close>: without the debug flag the library's output goes to the log file.\<close>

definition setMachineLogging :: "'h env \<Rightarrow> bool \<Rightarrow> 'h world \<Rightarrow> error option \<times> 'h world" where
  "setMachineLogging env logs w =
     (if \<not> logs then
        (case call_error env ''logging.OpenLogFile'' [LogFilePath env]
                (emit (Call ''log.SetDebug'' []) w) of
           (Some e, w1) \<Rightarrow> (Some e, w1)
         | (None, w1) \<Rightarrow>
             (None, emit (Call ''log.SetErrWriter'' []) (emit (Call ''log.SetOutWriter'' []) w1)))
      else (None, emit (Call ''log.SetDebug'' []) w))"

definition unsetMachineLogging :: "'h world \<Rightarrow> 'h world" where
  "unsetMachineLogging w = emit (Call ''logging.CloseLogFile'' []) w"

text \<open>
  \<^verbatim>\<open>createLibMachineClient\<close> returns the cleanup closure beside the error (\<open>closeClient\<close>
  when the client was created); the caller defers it, so it runs on every return:
  \<open>deferred\<close>.
\<close>

definition closeClient :: "'h world \<Rightarrow> 'h world" where
  "closeClient w = unsetMachineLogging (emit (Call ''client.Close'' []) w)"

definition createLibMachineClient ::
  "'h env \<Rightarrow> bool \<Rightarrow> 'h world \<Rightarrow> (('h world \<Rightarrow> 'h world) \<times> error option) \<times> 'h world" where
  "createLibMachineClient env debug w =
     (case setMachineLogging env debug w of
        (Some e, w1) \<Rightarrow> ((unsetMachineLogging, Some e), w1)
      | (None, w1) \<Rightarrow> ((closeClient, None), emit (Call ''libmachine.NewClient'' []) w1))"

definition deferred :: "('h world \<Rightarrow> 'h world) \<Rightarrow> 'r \<times> 'h world \<Rightarrow> 'r \<times> 'h world" where
  "deferred cleanup rw = (fst rw, cleanup (snd rw))"

section \<open>Delete\<close>

record DeleteConfig =
  dc_Name :: string

text \<open>
  Modelled from the spec: the result types and the \<^verbatim>\<open>...Error\<close> helpers are declared outside
  this file. A result carries the instance name and a Success flag (section 7); a failing
  one comes with an error made of the stage label and the cause.
\<close>

record DeleteResult =
  dr_Name :: string
  dr_Success :: bool

definition deleteError :: "string \<Rightarrow> string \<Rightarrow> error \<Rightarrow> DeleteResult \<times> error option" where
  "deleteError name description err =
     (\<lparr>dr_Name = name, dr_Success = False\<rparr>, Some (Wrap description err))"

definition Delete ::
  "'h env \<Rightarrow> DeleteConfig \<Rightarrow> 'h world \<Rightarrow> (DeleteResult \<times> error option) \<times> 'h world" where
  "Delete env deleteConfig w =
     (case createLibMachineClient env False w of
        ((cleanup, err), w1) \<Rightarrow>
          deferred cleanup
            (case err of
               Some e \<Rightarrow> (deleteError (dc_Name deleteConfig) ''Cannot initialize libmachine'' e, w1)
             | None \<Rightarrow>
                 (case api_Load env (dc_Name deleteConfig) w1 of
                    (Inl e, w2) \<Rightarrow>
                      (deleteError (dc_Name deleteConfig) ''Cannot load machine'' e, w2)
                  | (Inr h, w2) \<Rightarrow>
                      (case driver_call env ''Driver.Remove'' h w2 of
                         ((Some e, _), w3) \<Rightarrow>
                           (deleteError (dc_Name deleteConfig) ''Driver cannot remove machine'' e, w3)
                       | ((None, _), w3) \<Rightarrow>
                           (case api_Remove env (dc_Name deleteConfig) w3 of
                              (Some e, w4) \<Rightarrow>
                                (deleteError (dc_Name deleteConfig) ''Cannot remove machine'' e, w4)
                            | (None, w4) \<Rightarrow>
                                ((\<lparr>dr_Name = dc_Name deleteConfig, dr_Success = True\<rparr>, None),
                                 w4))))))"

section \<open>Bundles, proxy policy and cluster configuration\<close>

text \<open>\<^verbatim>\<open>filepath.Base\<close> of the Go library, for the separator \<open>/\<close>.\<close>

definition filepath_Base :: "string \<Rightarrow> string" where
  "filepath_Base path =
     (if path = [] then ''.''
      else
        (let stripped = rev (dropWhile (\<lambda>c. c = CHR ''/'') (rev path));
             element = rev (takeWhile (\<lambda>c. c \<noteq> CHR ''/'') (rev stripped))
         in if element = [] then ''/'' else element))"

definition bundle_GetCachedBundleInfo ::
  "'h env \<Rightarrow> string \<Rightarrow> 'h world \<Rightarrow> (error + CrcBundleInfo) \<times> 'h world" where
  "bundle_GetCachedBundleInfo env bundleName w =
     (ext_bundle env (fst w) ''bundle.GetCachedBundleInfo'' bundleName,
      emit (Call ''bundle.GetCachedBundleInfo'' [bundleName]) w)"

definition bundle_Extract ::
  "'h env \<Rightarrow> string \<Rightarrow> 'h world \<Rightarrow> (error + CrcBundleInfo) \<times> 'h world" where
  "bundle_Extract env bundlePath w =
     (ext_bundle env (fst w) ''bundle.Extract'' bundlePath,
      emit (Call ''bundle.Extract'' [bundlePath]) w)"

definition getCrcBundleInfo ::
  "'h env \<Rightarrow> string \<Rightarrow> 'h world \<Rightarrow> (error + CrcBundleInfo) \<times> 'h world" where
  "getCrcBundleInfo env bundlePath w =
     (case bundle_GetCachedBundleInfo env (filepath_Base bundlePath) w of
        (Inr bundleInfo, w1) \<Rightarrow> (Inr bundleInfo, logging ''Info'' ''Loading bundle: %s ...'' w1)
      | (Inl _, w1) \<Rightarrow>
          bundle_Extract env bundlePath (logging ''Info'' ''Extracting bundle: %s ...'' w1))"

definition getBundleMetadataFromDriver ::
  "'h env \<Rightarrow> host \<Rightarrow> 'h world \<Rightarrow> (error + string \<times> CrcBundleInfo) \<times> 'h world" where
  "getBundleMetadataFromDriver env h w =
     (case call_string env ''Driver.GetBundleName'' [HostName h] w of
        ((bundleName, err), w1) \<Rightarrow>
          if bundleName = [] \<or> err \<noteq> None then
            (Inl (Err ''Error getting bundle name from CodeReady Containers instance''), w1)
          else
            (case bundle_GetCachedBundleInfo env bundleName w1 of
               (Inl e, w2) \<Rightarrow> (Inl e, w2)
             | (Inr metadata, w2) \<Rightarrow> (Inr (bundleName, metadata), w2)))"

definition getProxyConfig ::
  "'h env \<Rightarrow> string \<Rightarrow> 'h world \<Rightarrow> (error + ProxyConfig) \<times> 'h world" where
  "getProxyConfig env baseDomainName w =
     (case ext_proxy env (fst w) of
        Inl e \<Rightarrow> (Inl e, emit (Call ''network.NewProxyConfig'' []) w)
      | Inr proxy \<Rightarrow>
          (Inr (if IsEnabled proxy then AddNoProxy (''.'' @ baseDomainName) proxy else proxy),
           emit (Call ''network.NewProxyConfig'' []) w))"

definition ApplyToEnvironment :: "ProxyConfig \<Rightarrow> 'h world \<Rightarrow> 'h world" where
  "ApplyToEnvironment p w =
     emit (Call ''ProxyConfig.ApplyToEnvironment'' (HTTPProxy p # HTTPSProxy p # noProxy p)) w"

definition getClusterConfig ::
  "'h env \<Rightarrow> CrcBundleInfo \<Rightarrow> 'h world \<Rightarrow> (error + ClusterConfig) \<times> 'h world" where
  "getClusterConfig env bundleInfo w =
     (case call_string env ''CrcBundleInfo.GetKubeadminPassword'' [] w of
        ((_, Some e), w1) \<Rightarrow>
          (Inl (Wrap ''Error reading kubeadmin password from bundle'' e), w1)
      | ((kubeadminPassword, None), w1) \<Rightarrow>
          (case getProxyConfig env (BaseDomain bundleInfo) w1 of
             (Inl e, w2) \<Rightarrow> (Inl e, w2)
           | (Inr proxyConfig, w2) \<Rightarrow>
               (Inr \<lparr>KubeConfig = KubeConfigPath bundleInfo,
                     KubeAdminPass = kubeadminPassword,
                     WebConsoleURL = DefaultWebConsoleURL env,
                     ClusterAPI = DefaultAPIURL env,
                     ProxyConfigOf = Some proxyConfig\<rparr>, w2)))"

section \<open>The retry primitive\<close>

text \<open>
  Modelled from the spec: \<^verbatim>\<open>errors.RetryAfter\<close> (section 4.1) is declared outside this file.
  It invokes the action up to \<open>maxAttempts\<close> times, sleeping the interval between attempts;
  an error tagged retriable asks for another attempt, any other error is returned at once,
  and when the attempts are exhausted the last retriable error is returned. The action is
  a closure: \<open>'c\<close> holds the variables it captures.
\<close>

fun is_retriable :: "error \<Rightarrow> bool" where
  "is_retriable (RetriableError _) = True"
| "is_retriable _ = False"

fun RetryAfter_loop ::
  "nat \<Rightarrow> ('c \<Rightarrow> 'h world \<Rightarrow> (error option \<times> 'c) \<times> 'h world) \<Rightarrow> nat \<Rightarrow> 'c \<Rightarrow> 'h world
     \<Rightarrow> (error option \<times> 'c) \<times> 'h world" where
  "RetryAfter_loop 0 action d c w = ((None, c), w)"
| "RetryAfter_loop (Suc k) action d c w =
     (case action c w of
        ((None, c1), w1) \<Rightarrow> ((None, c1), w1)
      | ((Some e, c1), w1) \<Rightarrow>
          if \<not> is_retriable e then ((Some e, c1), w1)
          else if k = 0 then ((Some e, c1), w1)
          else RetryAfter_loop k action d c1 (time_Sleep d w1))"

definition RetryAfter ::
  "int \<Rightarrow> ('c \<Rightarrow> 'h world \<Rightarrow> (error option \<times> 'c) \<times> 'h world) \<Rightarrow> nat \<Rightarrow> 'c \<Rightarrow> 'h world
     \<Rightarrow> (error option \<times> 'c) \<times> 'h world" where
  "RetryAfter maxAttempts action interval c w =
     RetryAfter_loop (nat maxAttempts) action interval c w"

section \<open>Proxy settings of the cluster\<close>

definition checkProxySettingsForOperator ::
  "'h env \<Rightarrow> ProxyConfig \<Rightarrow> unit \<Rightarrow> 'h world \<Rightarrow> (error option \<times> unit) \<times> 'h world" where
  "checkProxySettingsForOperator env proxyConfig u w =
     (case call_bool env ''cluster.CheckProxySettingsForOperator''
             [''redhat-operators'', ''openshift-marketplace''] w of
        ((_, Some e), w1) \<Rightarrow>
          ((Some (RetriableError e), ()),
           logging ''Debug'' ''Error getting proxy setting for openshift-marketplace operator %v'' w1)
      | ((proxySet, None), w1) \<Rightarrow>
          if \<not> proxySet then
            ((Some (RetriableError (Err [])), ()),
             logging ''Debug'' ''Proxy changes for cluster in progress'' w1)
          else ((None, ()), w1))"

definition waitForProxyPropagation :: "'h env \<Rightarrow> ProxyConfig \<Rightarrow> 'h world \<Rightarrow> 'h world" where
  "waitForProxyPropagation env proxyConfig w =
     (case RetryAfter 60 (checkProxySettingsForOperator env proxyConfig) (2 * Second) () w of
        ((Some _, _), w1) \<Rightarrow>
          logging ''Debug'' ''Failed to propagate proxy settings to cluster'' w1
      | ((None, _), w1) \<Rightarrow> w1)"

text \<open>
  The deferred function of \<^verbatim>\<open>configProxyForCluster\<close>: it restarts crio and kubelet and
  replaces the named result \<open>err\<close> by a restart's error.
\<close>

definition restartServices ::
  "'h env \<Rightarrow> ProxyConfig \<Rightarrow> error option \<Rightarrow> 'h world \<Rightarrow> error option \<times> 'h world" where
  "restartServices env proxy err w =
     (if IsEnabled proxy then
        (case call_string env ''sd.Restart'' [''crio''] w of
           ((_, ferr), w1) \<Rightarrow>
             (case call_string env ''sd.Restart'' [''kubelet''] w1 of
                ((_, ferr2), w2) \<Rightarrow>
                  ((case ferr2 of
                      Some f \<Rightarrow> Some f
                    | None \<Rightarrow> (case ferr of Some f \<Rightarrow> Some f | None \<Rightarrow> err)), w2)))
      else (err, w))"

definition configProxyForCluster ::
  "'h env \<Rightarrow> ProxyConfig \<Rightarrow> string \<Rightarrow> 'h world \<Rightarrow> (error option \<times> ProxyConfig) \<times> 'h world" where
  "configProxyForCluster env proxy instanceIP w =
     (if \<not> IsEnabled proxy then ((None, proxy), w)
      else
        (let proxy1 = AddNoProxy instanceIP proxy;
             pushed =
               (case call_error env ''cluster.AddProxyConfigToCluster''
                       (HTTPProxy proxy1 # HTTPSProxy proxy1 # noProxy proxy1)
                       (logging ''Info'' ''Adding proxy configuration to the cluster ...'' w) of
                  (Some e, w1) \<Rightarrow> (Some e, w1)
                | (None, w1) \<Rightarrow>
                    (case call_error env ''cluster.AddProxyToKubeletAndCriO''
                            (HTTPProxy proxy1 # HTTPSProxy proxy1 # noProxy proxy1)
                            (logging ''Info''
                               ''Adding proxy configuration to kubelet and crio service ...'' w1) of
                       (Some e, w2) \<Rightarrow> (Some e, w2)
                     | (None, w2) \<Rightarrow> (None, w2)))
         in (case restartServices env proxy1 (fst pushed) (snd pushed) of
               (err, w3) \<Rightarrow> ((err, proxy1), w3))))"

definition configureCluster ::
  "'h env \<Rightarrow> ProxyConfig \<Rightarrow> string \<Rightarrow> string \<Rightarrow> 'h world
     \<Rightarrow> (error option \<times> ProxyConfig) \<times> 'h world" where
  "configureCluster env proxyConfig pullSecret instanceIP w =
     (case configProxyForCluster env proxyConfig instanceIP w of
        ((Some e, proxy1), w1) \<Rightarrow>
          ((Some (Wrap ''Failed to configure proxy for cluster'' e), proxy1), w1)
      | ((None, proxy1), w1) \<Rightarrow>
          (case call_error env ''cluster.AddPullSecret'' [pullSecret]
                  (logging ''Info'' ''Adding user's pull secret ...'' w1) of
             (Some e, w2) \<Rightarrow>
               ((Some (Wrap ''Failed to update user pull secret or cluster ID'' e), proxy1), w2)
           | (None, w2) \<Rightarrow>
               (case call_error env ''cluster.UpdateClusterID'' []
                       (logging ''Info'' ''Updating cluster ID ...'' w2) of
                  (Some e, w3) \<Rightarrow> ((Some (Wrap ''Failed to update cluster ID'' e), proxy1), w3)
                | (None, w3) \<Rightarrow> ((None, proxy1), w3))))"

section \<open>Status\<close>

record ClusterStatusConfig =
  csc_Name :: string

record ClusterStatusResult =
  csr_Name :: string
  csr_CrcStatus :: string
  csr_OpenshiftStatus :: string
  csr_DiskUse :: int
  csr_DiskSize :: int
  csr_Success :: bool

definition statusError :: "string \<Rightarrow> string \<Rightarrow> error \<Rightarrow> ClusterStatusResult \<times> error option" where
  "statusError name description err =
     (\<lparr>csr_Name = name, csr_CrcStatus = [], csr_OpenshiftStatus = [], csr_DiskUse = 0,
       csr_DiskSize = 0, csr_Success = False\<rparr>, Some (Wrap description err))"

text \<open>The \<^verbatim>\<open>switch\<close> of \<^verbatim>\<open>Status\<close> on the operator flags, in the order of its cases.\<close>

definition operatorsSwitch :: "CrcBundleInfo \<Rightarrow> Status \<Rightarrow> string \<Rightarrow> string" where
  "operatorsSwitch crcBundleMetadata operatorsStatus openshiftStatus =
     (if Available operatorsStatus then
        ''Running (v''
          @ (if OpenshiftVersion crcBundleMetadata \<noteq> [] then OpenshiftVersion crcBundleMetadata
             else ''4.x'')
          @ '')''
      else if Degraded operatorsStatus then ''Degraded''
      else if Progressing operatorsStatus then ''Starting''
      else openshiftStatus)"

definition StatusRunning ::
  "'h env \<Rightarrow> string \<Rightarrow> host \<Rightarrow> state \<Rightarrow> 'h world
     \<Rightarrow> (ClusterStatusResult \<times> error option) \<times> 'h world" where
  "StatusRunning env name h vmStatus w =
     (case getBundleMetadataFromDriver env h w of
        (Inl e, w1) \<Rightarrow> (statusError name ''Error loading bundle metadata'' e, w1)
      | (Inr (_, crcBundleMetadata), w1) \<Rightarrow>
          (case getProxyConfig env (BaseDomain crcBundleMetadata) w1 of
             (Inl e, w2) \<Rightarrow> (statusError name ''Error getting proxy configuration'' e, w2)
           | (Inr proxyConfig, w2) \<Rightarrow>
               (let w3 = emit (Call ''cluster.GetClusterOperatorsStatus'' [])
                           (ApplyToEnvironment proxyConfig w2);
                    queried = ext_operators env (fst w3);
                    openshiftStatus =
                      (case snd queried of Some _ \<Rightarrow> ''Not Reachable'' | None \<Rightarrow> ''Stopped'');
                    w4 = (case snd queried of
                            Some _ \<Rightarrow> logging ''Debug'' ''err.Error()'' w3
                          | None \<Rightarrow> w3)
                in (case (ext_usage env (fst w4),
                          emit (Call ''cluster.GetRootPartitionUsage'' []) w4) of
                      ((_, Some e), w5) \<Rightarrow>
                        (statusError name ''Cannot get root partition usage'' e, w5)
                    | (((diskSize, diskUse), None), w5) \<Rightarrow>
                        ((\<lparr>csr_Name = name,
                           csr_CrcStatus = state_String vmStatus,
                           csr_OpenshiftStatus =
                             operatorsSwitch crcBundleMetadata (fst queried) openshiftStatus,
                           csr_DiskUse = diskUse,
                           csr_DiskSize = diskSize,
                           csr_Success = True\<rparr>, None), w5)))))"

definition Status ::
  "'h env \<Rightarrow> ClusterStatusConfig \<Rightarrow> 'h world
     \<Rightarrow> (ClusterStatusResult \<times> error option) \<times> 'h world" where
  "Status env statusConfig w =
     (case createLibMachineClient env False w of
        ((cleanup, err), w1) \<Rightarrow>
          deferred cleanup
            (case err of
               Some e \<Rightarrow> (statusError (csc_Name statusConfig) ''Cannot initialize libmachine'' e, w1)
             | None \<Rightarrow>
                 (case api_Exists env (csc_Name statusConfig) w1 of
                    ((_, Some e), w2) \<Rightarrow>
                      (statusError (csc_Name statusConfig) ''Cannot check if machine exists'' e, w2)
                  | ((_, None), w2) \<Rightarrow>
                      (case api_Load env (csc_Name statusConfig) w2 of
                         (Inl e, w3) \<Rightarrow>
                           (statusError (csc_Name statusConfig) ''Cannot load machine'' e, w3)
                       | (Inr h, w3) \<Rightarrow>
                           (case Driver_GetState env h w3 of
                              ((_, Some e), w4) \<Rightarrow>
                                (statusError (csc_Name statusConfig) ''Cannot get machine state'' e,
                                 w4)
                            | ((vmStatus, None), w4) \<Rightarrow>
                                if IsRunning vmStatus then
                                  StatusRunning env (csc_Name statusConfig) h vmStatus w4
                                else
                                  ((\<lparr>csr_Name = csc_Name statusConfig,
                                     csr_CrcStatus = state_String vmStatus,
                                     csr_OpenshiftStatus = ''Stopped'',
                                     csr_DiskUse = 0,
                                     csr_DiskSize = 0,
                                     csr_Success = True\<rparr>, None), w4))))))"

section \<open>Start\<close>

record StartConfig =
  sc_Name :: string
  sc_BundlePath :: string
  sc_CPUs :: int
  sc_Memory :: int
  sc_NameServer :: string
  sc_Debug :: bool

record StartResult =
  sr_Name :: string
  sr_Status :: string
  sr_KubeletStarted :: bool
  sr_ClusterConfig :: ClusterConfig

definition zeroClusterConfig :: ClusterConfig where
  "zeroClusterConfig =
     \<lparr>KubeConfig = [], KubeAdminPass = [], WebConsoleURL = [], ClusterAPI = [],
      ProxyConfigOf = None\<rparr>"

definition startError :: "string \<Rightarrow> string \<Rightarrow> error \<Rightarrow> StartResult \<times> error option" where
  "startError name description err =
     (\<lparr>sr_Name = name, sr_Status = [], sr_KubeletStarted = False,
       sr_ClusterConfig = zeroClusterConfig\<rparr>, Some (Wrap description err))"

definition Exists :: "'h env \<Rightarrow> string \<Rightarrow> 'h world \<Rightarrow> (bool \<times> error option) \<times> 'h world" where
  "Exists env name w =
     (case createLibMachineClient env False w of
        ((cleanup, err), w1) \<Rightarrow>
          deferred cleanup
            (case err of
               Some e \<Rightarrow> ((False, Some e), w1)
             | None \<Rightarrow>
                 (case api_Exists env name w1 of
                    ((_, Some e), w2) \<Rightarrow>
                      ((False, Some (Wrap ''Error checking if the host exists'' e)), w2)
                  | ((exists, None), w2) \<Rightarrow> ((exists, None), w2))))"

text \<open>
  \<^verbatim>\<open>api.Create\<close> of the machine library creates the VM and persists its record; when it
  fails no record is kept (spec section 4.3, step 1).
\<close>

definition api_Create :: "'h env \<Rightarrow> host \<Rightarrow> 'h world \<Rightarrow> error option \<times> 'h world" where
  "api_Create env vm w =
     (case ext_mutate env (fst w) ''api.Create'' vm of
        (Some e, _, hy) \<Rightarrow>
          (Some e, ((fst w)\<lparr>hyp := hy\<rparr>, snd w @ [Call ''api.Create'' [HostName vm]]))
      | (None, vm', hy) \<Rightarrow>
          (None, ((fst w)\<lparr>machines := (machines (fst w))(HostName vm' \<mapsto> vm'), hyp := hy\<rparr>,
                  snd w @ [Call ''api.Create'' [HostName vm]])))"

definition createHost ::
  "'h env \<Rightarrow> string \<Rightarrow> MachineConfig \<Rightarrow> 'h world \<Rightarrow> (error + host) \<times> 'h world" where
  "createHost env driverPath machineConfig w =
     (case json_driverOptions env machineConfig of
        Inl _ \<Rightarrow> (Inl (Err ''Failed to marshal driver options''), emit (Call ''json.Marshal'' []) w)
      | Inr jsonDriverConfig \<Rightarrow>
          (case (ext_newhost env (fst w) (mc_VMDriver machineConfig) driverPath jsonDriverConfig,
                 emit (Call ''api.NewHost'' [mc_VMDriver machineConfig, driverPath])
                   (emit (Call ''json.Marshal'' []) w)) of
             (Inl e, w1) \<Rightarrow> (Inl (Wrap ''Error creating new host'' e), w1)
           | (Inr vm, w1) \<Rightarrow>
               (case api_Create env vm w1 of
                  (Some e, w2) \<Rightarrow> (Inl (Wrap ''Error creating the VM'' e), w2)
                | (None, w2) \<Rightarrow> (Inr vm, w2))))"

text \<open>
  The local variables of \<^verbatim>\<open>Start\<close> that outlive the step that sets them. \<open>l_sshRunner\<close> is
  the private key path of the SSH runner, which \<^verbatim>\<open>updateSSHKeyPair\<close> replaces.
\<close>

record locals =
  l_exists :: bool
  l_privateKeyPath :: string
  l_pullSecret :: string
  l_crcBundleMetadata :: CrcBundleInfo
  l_clusterConfig :: ClusterConfig
  l_host :: host
  l_vmState :: state
  l_sshRunner :: string
  l_needsCertsRenewal :: bool
  l_instanceIP :: string
  l_hostIP :: string
  l_proxyConfig :: ProxyConfig

definition zeroLocals :: locals where
  "zeroLocals =
     \<lparr>l_exists = False, l_privateKeyPath = [], l_pullSecret = [],
      l_crcBundleMetadata =
        \<lparr>BaseDomain = [], OpenshiftVersion = [], DiskImagePath = [], SSHKeyPath = [],
         KubeConfigPath = [], InitramfsPath = [], KernelPath = [], Nodes = []\<rparr>,
      l_clusterConfig = zeroClusterConfig,
      l_host = \<lparr>HostName = [], HostDriverName = [], RawDriver = []\<rparr>,
      l_vmState = Missing, l_sshRunner = [], l_needsCertsRenewal = False,
      l_instanceIP = [], l_hostIP = [],
      l_proxyConfig = \<lparr>HTTPProxy = [], HTTPSProxy = [], noProxy = []\<rparr>\<rparr>"

text \<open>
  A step of \<^verbatim>\<open>Start\<close> either returns from the function (\<open>Inl\<close>, with the result and the
  error) or goes on with the updated locals (\<open>Inr\<close>); \<open>andThen\<close> runs the next step only in
  the second case.
\<close>

type_synonym 'h step =
  "locals \<Rightarrow> 'h world \<Rightarrow> ((StartResult \<times> error option) + locals) \<times> 'h world"

definition andThen :: "'h step \<Rightarrow> 'h step \<Rightarrow> 'h step" where
  "andThen p q l w = (case p l w of (Inl r, w1) \<Rightarrow> (Inl r, w1) | (Inr l1, w1) \<Rightarrow> q l1 w1)"

subsection \<open>Before the VM is started\<close>

text \<open>The branch \<^verbatim>\<open>if !exists\<close>: a new instance is created.\<close>

definition Start_create :: "'h env \<Rightarrow> StartConfig \<Rightarrow> 'h step" where
  "Start_create env startConfig l w =
     (case call_string env ''startConfig.GetPullSecret'' [] w of
        ((_, Some e), w1) \<Rightarrow>
          (Inl (startError (sc_Name startConfig) ''Failed to get pull secret'' e), w1)
      | ((pullSecret, None), w1) \<Rightarrow>
          (case getCrcBundleInfo env (sc_BundlePath startConfig) w1 of
             (Inl e, w2) \<Rightarrow>
               (Inl (startError (sc_Name startConfig) ''Error getting bundle metadata'' e), w2)
           | (Inr crcBundleMetadata, w2) \<Rightarrow>
               (case call_error env ''CrcBundleInfo.CheckDiskImageSize'' []
                       (logging ''Info'' ''Checking size of the disk image %s ...'' w2) of
                  (Some e, w3) \<Rightarrow>
                    (Inl (startError (sc_Name startConfig)
                            (''Invalid bundle disk image '' @ DiskImagePath crcBundleMetadata) e),
                     w3)
                | (None, w3) \<Rightarrow>
                    (case Nodes crcBundleMetadata of
                       [] \<Rightarrow>
                         (Inl (\<lparr>sr_Name = [], sr_Status = [], sr_KubeletStarted = False,
                                sr_ClusterConfig = zeroClusterConfig\<rparr>,
                               Some (Panic ''index out of range'')),
                          logging ''Info''
                            (if OpenshiftVersion crcBundleMetadata = [] then ''Creating VM...''
                             else ''Creating CodeReady Containers VM for OpenShift %s...'') w3)
                     | node # _ \<Rightarrow>
                         (case createHost env (DefaultDriverPath env)
                                 \<lparr>mc_Name = sc_Name startConfig,
                                  mc_BundleName = filepath_Base (sc_BundlePath startConfig),
                                  mc_VMDriver = DefaultDriver env,
                                  mc_CPUs = sc_CPUs startConfig,
                                  mc_Memory = sc_Memory startConfig,
                                  mc_DiskPathURL = ''file://'' @ DiskImagePath crcBundleMetadata,
                                  mc_SSHKeyPath = SSHKeyPath crcBundleMetadata,
                                  mc_KernelCmdLine = node,
                                  mc_Initramfs = InitramfsPath crcBundleMetadata,
                                  mc_Kernel = KernelPath crcBundleMetadata\<rparr>
                                 (logging ''Info''
                                    (if OpenshiftVersion crcBundleMetadata = []
                                     then ''Creating VM...''
                                     else ''Creating CodeReady Containers VM for OpenShift %s...'')
                                    w3) of
                            (Inl e, w4) \<Rightarrow>
                              (Inl (startError (sc_Name startConfig) ''Error creating machine'' e),
                               w4)
                          | (Inr _, w4) \<Rightarrow>
                              (Inr (l\<lparr>l_exists := False,
                                      l_privateKeyPath := SSHKeyPath crcBundleMetadata,
                                      l_pullSecret := pullSecret,
                                      l_crcBundleMetadata := crcBundleMetadata\<rparr>), w4))))))"

text \<open>The \<^verbatim>\<open>else\<close> branch: the instance is recorded.\<close>

definition Start_existing :: "'h env \<Rightarrow> StartConfig \<Rightarrow> 'h step" where
  "Start_existing env startConfig l w =
     (case api_Load env (sc_Name startConfig) w of
        (Inl e, w1) \<Rightarrow> (Inl (startError (sc_Name startConfig) ''Error loading machine'' e), w1)
      | (Inr h, w1) \<Rightarrow>
          (case getBundleMetadataFromDriver env h w1 of
             (Inl e, w2) \<Rightarrow>
               (Inl (startError (sc_Name startConfig) ''Error loading bundle metadata'' e), w2)
           | (Inr (bundleName, crcBundleMetadata), w2) \<Rightarrow>
               if bundleName \<noteq> filepath_Base (sc_BundlePath startConfig) then
                 (Inl (startError (sc_Name startConfig) ''Invalid bundle''
                         (Err (''Bundle '' @ filepath_Base (sc_BundlePath startConfig)
                               @ '' was requested, but the existing VM is using '' @ bundleName))),
                  logging ''Debug'' ''Bundle %s was requested, but the existing VM is using %s'' w2)
               else
                 (case Driver_GetState env h w2 of
                    ((_, Some e), w3) \<Rightarrow>
                      (Inl (startError (sc_Name startConfig) ''Error getting the machine state'' e),
                       w3)
                  | ((vmState, None), w3) \<Rightarrow>
                      if IsRunning vmState then
                        (Inl (\<lparr>sr_Name = sc_Name startConfig,
                               sr_Status = state_String vmState,
                               sr_KubeletStarted = False,
                               sr_ClusterConfig = zeroClusterConfig\<rparr>, None),
                         logging ''Info''
                           (if OpenshiftVersion crcBundleMetadata = []
                            then ''A CodeReady Containers VM is already running''
                            else ''A CodeReady Containers VM for OpenShift %s is already running'')
                           w3)
                      else
                        (case driver_call env ''Driver.Start'' h
                                (logging ''Info''
                                   (if OpenshiftVersion crcBundleMetadata = []
                                    then ''Starting CodeReady Containers VM ...''
                                    else ''Starting CodeReady Containers VM for OpenShift %s...'')
                                   w3) of
                           ((Some e, _), w4) \<Rightarrow>
                             (Inl (startError (sc_Name startConfig) ''Error starting stopped VM'' e),
                              w4)
                         | ((None, h'), w4) \<Rightarrow>
                             (case api_Save env h' w4 of
                                (Some e, w5) \<Rightarrow>
                                  (Inl (startError (sc_Name startConfig)
                                          ''Error saving state for VM'' e), w5)
                              | (None, w5) \<Rightarrow>
                                  (Inr (l\<lparr>l_exists := True,
                                          l_privateKeyPath := PrivateKeyPath env,
                                          l_crcBundleMetadata := crcBundleMetadata\<rparr>), w5))))))"

text \<open>
  \<^verbatim>\<open>exists, err := Exists(startConfig.Name)\<close>: only \<open>exists\<close> is read; \<open>err\<close> is
  overwritten or shadowed before any use.
\<close>

definition Start_preVM :: "'h env \<Rightarrow> StartConfig \<Rightarrow> 'h step" where
  "Start_preVM env startConfig l w =
     (case Exists env (sc_Name startConfig) w of
        ((exists, _), w1) \<Rightarrow>
          if \<not> exists then Start_create env startConfig l w1
          else Start_existing env startConfig l w1)"

subsection \<open>After the VM is started\<close>

text \<open>Lines 222 to 244: cluster configuration, reload of the instance, SSH.\<close>

definition Start_connect :: "'h env \<Rightarrow> StartConfig \<Rightarrow> 'h step" where
  "Start_connect env startConfig l w =
     (case getClusterConfig env (l_crcBundleMetadata l) w of
        (Inl e, w1) \<Rightarrow>
          (Inl (startError (sc_Name startConfig) ''Cannot create cluster configuration'' e), w1)
      | (Inr clusterConfig, w1) \<Rightarrow>
          (case api_Load env (sc_Name startConfig) w1 of
             (Inl e, w2) \<Rightarrow>
               (Inl (startError (sc_Name startConfig)
                       (''Error loading '' @ sc_Name startConfig @ '' vm'') e), w2)
           | (Inr h, w2) \<Rightarrow>
               (case Driver_GetState env h w2 of
                  ((_, Some e), w3) \<Rightarrow>
                    (Inl (startError (sc_Name startConfig) ''Error getting the state'' e), w3)
                | ((vmState, None), w3) \<Rightarrow>
                    (case call_error env ''cluster.WaitForSSH'' [l_privateKeyPath l]
                            (logging ''Debug'' ''Waiting until ssh is available'' w3) of
                       (Some e, w4) \<Rightarrow>
                         (Inl (startError (sc_Name startConfig)
                                 ''Failed to connect to the CRC VM with SSH -- host might be unreachable''
                                 e), w4)
                     | (None, w4) \<Rightarrow>
                         (Inr (l\<lparr>l_clusterConfig := clusterConfig, l_host := h,
                                 l_vmState := vmState, l_sshRunner := l_privateKeyPath l\<rparr>),
                          logging ''Info'' ''CodeReady Containers VM is running'' w4)))))"

text \<open>Lines 246 to 256: the validity of the certificates inside the VM.\<close>

definition cluster_CheckCertsValidity ::
  "'h env \<Rightarrow> 'h world \<Rightarrow> (CertExpiryState \<times> error option) \<times> 'h world" where
  "cluster_CheckCertsValidity env w =
     (ext_certs env (fst w), emit (Call ''cluster.CheckCertsValidity'' []) w)"

definition Start_certs :: "'h env \<Rightarrow> StartConfig \<Rightarrow> 'h step" where
  "Start_certs env startConfig l w =
     (case cluster_CheckCertsValidity env
             (logging ''Info'' ''Verifying validity of the cluster certificates ...'' w) of
        ((certExpiryState, Some e), w1) \<Rightarrow>
          if certExpiryState = CertExpired then (Inr (l\<lparr>l_needsCertsRenewal := True\<rparr>), w1)
          else
            (Inl (startError (sc_Name startConfig) ''Failed to check certificate validity'' e), w1)
      | ((_, None), w1) \<Rightarrow> (Inr (l\<lparr>l_needsCertsRenewal := False\<rparr>), w1))"

text \<open>Lines 257 to 281: the nameserver, the IP of the instance and of the host.\<close>

definition addNameServerToInstance :: "'h env \<Rightarrow> string \<Rightarrow> 'h world \<Rightarrow> error option \<times> 'h world" where
  "addNameServerToInstance env ns w =
     (case call_bool env ''network.HasGivenNameserversConfigured'' [ns] w of
        ((_, Some e), w1) \<Rightarrow> (Some e, w1)
      | ((exist, None), w1) \<Rightarrow>
          if \<not> exist then
            call_error env ''network.AddNameserversToInstance'' [ns]
              (logging ''Info'' ''Adding %s as nameserver to the instance ...'' w1)
          else (None, w1))"

definition determineHostIP ::
  "'h env \<Rightarrow> string \<Rightarrow> string \<Rightarrow> 'h world \<Rightarrow> (error option \<times> string) \<times> 'h world" where
  "determineHostIP env instanceIP hostIP w =
     (case call_string env ''network.DetermineHostIP'' [instanceIP] w of
        ((ip, Some e), w1) \<Rightarrow>
          ((Some (RetriableError e), ip),
           logging ''Debug'' ''Error finding host IP (%v) - retrying'' w1)
      | ((ip, None), w1) \<Rightarrow> ((None, ip), w1))"

definition Start_hostIP :: "'h env \<Rightarrow> StartConfig \<Rightarrow> 'h step" where
  "Start_hostIP env startConfig l w =
     (case call_string env ''Driver.GetIP'' [HostName (l_host l)] w of
        ((_, Some e), w1) \<Rightarrow>
          (Inl (startError (sc_Name startConfig) ''Error getting the IP'' e), w1)
      | ((instanceIP, None), w1) \<Rightarrow>
          (case RetryAfter 30 (determineHostIP env instanceIP) (2 * Second) [] w1 of
             ((Some e, _), w2) \<Rightarrow>
               (Inl (startError (sc_Name startConfig) ''Error determining host IP'' e), w2)
           | ((None, hostIP), w2) \<Rightarrow>
               (Inr (l\<lparr>l_instanceIP := instanceIP, l_hostIP := hostIP\<rparr>), w2)))"

definition Start_network :: "'h env \<Rightarrow> StartConfig \<Rightarrow> 'h step" where
  "Start_network env startConfig l w =
     (if sc_NameServer startConfig \<noteq> [] then
        (case addNameServerToInstance env (sc_NameServer startConfig) w of
           (Some e, w1) \<Rightarrow>
             (Inl (startError (sc_Name startConfig) ''Failed to add nameserver to the VM'' e), w1)
         | (None, w1) \<Rightarrow> Start_hostIP env startConfig l w1)
      else Start_hostIP env startConfig l w)"

text \<open>Lines 283 to 304: the proxy policy and the DNS server inside the VM.\<close>

definition Start_dns :: "'h env \<Rightarrow> StartConfig \<Rightarrow> 'h step" where
  "Start_dns env startConfig l w =
     (case getProxyConfig env (BaseDomain (l_crcBundleMetadata l)) w of
        (Inl e, w1) \<Rightarrow>
          (Inl (startError (sc_Name startConfig) ''Error getting proxy configuration'' e), w1)
      | (Inr proxyConfig, w1) \<Rightarrow>
          (case call_error env ''dns.RunPostStart'' [l_instanceIP l, l_hostIP l]
                  (ApplyToEnvironment proxyConfig w1) of
             (Some e, w2) \<Rightarrow>
               (Inl (startError (sc_Name startConfig) ''Error running post start'' e), w2)
           | (None, w2) \<Rightarrow> (Inr (l\<lparr>l_proxyConfig := proxyConfig\<rparr>), w2)))"

text \<open>Lines 306 to 320: the DNS checks, from the VM and from the host.\<close>

definition Start_dnsChecks :: "'h env \<Rightarrow> StartConfig \<Rightarrow> 'h step" where
  "Start_dnsChecks env startConfig l w =
     (case call_string env ''dns.CheckCRCLocalDNSReachable'' [l_instanceIP l] w of
        ((queryOutput, Some e), w1) \<Rightarrow>
          (Inl (startError (sc_Name startConfig)
                  (''Failed internal DNS query: '' @ queryOutput) e), w1)
      | ((_, None), w1) \<Rightarrow>
          (case call_string env ''dns.CheckCRCPublicDNSReachable'' [l_instanceIP l]
                  (logging ''Info'' ''Check internal and public DNS query ...'' w1) of
             ((_, err), w2) \<Rightarrow>
               (case call_error env ''network.CheckCRCLocalDNSReachableFromHost'' [l_instanceIP l]
                       (logging ''Info'' ''Check DNS query from host ...''
                          (case err of
                             Some _ \<Rightarrow>
                               logging ''Warn''
                                 ''Failed public DNS query from the cluster: %v : %s'' w2
                           | None \<Rightarrow> w2)) of
                  (Some e, w3) \<Rightarrow>
                    (Inl (startError (sc_Name startConfig) ''Failed to query DNS from host'' e), w3)
                | (None, w3) \<Rightarrow> (Inr l, w3))))"

text \<open>Lines 322 to 345: the steps of a newly created instance.\<close>

definition updateSSHKeyPair :: "'h env \<Rightarrow> string \<Rightarrow> 'h world \<Rightarrow> (error option \<times> string) \<times> 'h world" where
  "updateSSHKeyPair env sshRunner w =
     (case call_error env ''ssh.GenerateSSHKey'' [PrivateKeyPath env] w of
        (Some e, w1) \<Rightarrow> ((Some (Wrap ''Error generating ssh key pair'' e), sshRunner), w1)
      | (None, w1) \<Rightarrow>
          (case call_string env ''ioutil.ReadFile'' [PublicKeyPath env] w1 of
             ((_, Some e), w2) \<Rightarrow> ((Some e, sshRunner), w2)
           | ((publicKey, None), w2) \<Rightarrow>
               (case call_string env ''sshRunner.Run''
                       [''echo %s > /home/core/.ssh/authorized_keys'', publicKey] w2 of
                  ((_, Some e), w3) \<Rightarrow> ((Some e, sshRunner), w3)
                | ((_, None), w3) \<Rightarrow> ((None, PrivateKeyPath env), w3))))"

definition Start_firstBoot :: "'h env \<Rightarrow> StartConfig \<Rightarrow> 'h step" where
  "Start_firstBoot env startConfig l w =
     (if \<not> l_exists l then
        (case updateSSHKeyPair env (l_sshRunner l) (logging ''Info'' ''Generating new SSH key'' w) of
           ((Some e, _), w1) \<Rightarrow>
             (Inl (startError (sc_Name startConfig) ''Error updating public key'' e), w1)
         | ((None, sshRunner), w1) \<Rightarrow>
             (case call_error env ''crcos.CopyFileContents''
                     [KubeConfigPath (l_crcBundleMetadata l),
                      MachineInstanceDir env @ ''/'' @ sc_Name startConfig @ ''/kubeconfig'']
                     (logging ''Info'' ''Copying kubeconfig file to instance dir ...'' w1) of
                (Some e, w2) \<Rightarrow>
                  (Inl (startError (sc_Name startConfig) ''Error copying kubeconfig file'' e), w2)
              | (None, w2) \<Rightarrow>
                  (case call_string env ''ioutil.ReadFile''
                          [MachineInstanceDir env @ ''/'' @ sc_Name startConfig @ ''/kubeconfig'']
                          w2 of
                     ((kubeconfigContent, _), w3) \<Rightarrow>
                       (case call_string env ''sshRunner.RunPrivate''
                               [''cat <<EOF | sudo tee /opt/kubeconfig'', kubeconfigContent] w3 of
                          ((_, Some e), w4) \<Rightarrow>
                            (Inl (startError (sc_Name startConfig)
                                    ''Error copying kubeconfig file in VM'' e), w4)
                        | ((_, None), w4) \<Rightarrow> (Inr (l\<lparr>l_sshRunner := sshRunner\<rparr>), w4)))))
      else (Inr l, w))"

text \<open>
  Lines 347 to 375: certificate renewal, the kubelet service, the configuration of a new
  cluster. Whether the bundle is thirty days old is computed from the clock in floating
  point; here it is the boolean answer of a collaborator.
\<close>

definition Start_startKubelet :: "'h env \<Rightarrow> StartConfig \<Rightarrow> 'h step" where
  "Start_startKubelet env startConfig l w =
     (case call_string env ''sd.Start'' [''kubelet'']
             (logging ''Info'' ''Starting OpenShift kubelet service'' w) of
        ((_, Some e), w1) \<Rightarrow>
          (Inl (startError (sc_Name startConfig) ''Error starting kubelet'' e), w1)
      | ((_, None), w1) \<Rightarrow>
          if \<not> l_exists l then
            (case configureCluster env (l_proxyConfig l) (l_pullSecret l) (l_instanceIP l)
                    (logging ''Info'' ''Configuring cluster for first start'' w1) of
               ((Some e, _), w2) \<Rightarrow>
                 (Inl (startError (sc_Name startConfig) ''Error Setting cluster config'' e), w2)
             | ((None, proxyConfig), w2) \<Rightarrow> (Inr (l\<lparr>l_proxyConfig := proxyConfig\<rparr>), w2))
          else (Inr l, w1))"

definition Start_kubelet :: "'h env \<Rightarrow> StartConfig \<Rightarrow> 'h step" where
  "Start_kubelet env startConfig l w =
     (if l_needsCertsRenewal l then
        (case call_error env ''cluster.RegenerateCertificates'' []
                (logging ''Info''
                   ''Cluster TLS certificates have expired, renewing them... [will take up to 5 minutes]''
                   w) of
           (Some e, w1) \<Rightarrow>
             (Inl (startError (sc_Name startConfig)
                     ''Failed to renew TLS certificates: please check if a newer CodeReady Containers release is available''
                     e),
              (case call_bool env ''CrcBundleInfo.GetBundleBuildTime'' []
                      (logging ''Debug'' ''Failed to renew TLS certificates: %v'' w1) of
                 ((thirtyDaysOld, None), w2) \<Rightarrow>
                   if thirtyDaysOld
                   then logging ''Debug'' ''Bundle has been generated %d days ago'' w2
                   else w2
               | ((_, Some _), w2) \<Rightarrow> w2))
         | (None, w1) \<Rightarrow> Start_startKubelet env startConfig l w1)
      else Start_startKubelet env startConfig l w)"

text \<open>
  Lines 377 to 433: the kubelet's state, the work-around for the API server, the fixed
  wait, the node's certificate request, the proxy propagation and the result. The \<open>err\<close>
  returned at the end was last assigned by \<^verbatim>\<open>sd.IsActive\<close> and is nil there.
\<close>

definition Start_finish ::
  "'h env \<Rightarrow> StartConfig \<Rightarrow> locals \<Rightarrow> bool \<Rightarrow> 'h world \<Rightarrow> (StartResult \<times> error option) \<times> 'h world" where
  "Start_finish env startConfig l kubeletStarted w =
     (case call_error env ''cluster.ApproveNodeCSR'' [] (time_Sleep (3 * Minute) w) of
        (Some e, w1) \<Rightarrow> (startError (sc_Name startConfig) ''Error approving the node csr'' e, w1)
      | (None, w1) \<Rightarrow>
          ((\<lparr>sr_Name = sc_Name startConfig,
             sr_Status = state_String (l_vmState l),
             sr_KubeletStarted = kubeletStarted,
             sr_ClusterConfig = l_clusterConfig l\<rparr>, None),
           logging ''Info''
             ''You can now run 'crc console' and use these credentials to access the OpenShift web console''
             (logging ''Info'' []
                (logging ''Info'' ''To login as an admin, run 'oc login -u kubeadmin -p %s %s' ''
                   (logging ''Info''
                      ''Then you can access it by running 'oc login -u developer -p developer %s' ''
                      (logging ''Info''
                         ''To access the cluster, first set up your environment by following 'crc oc-env' instructions''
                         (logging ''Info'' []
                            (if IsEnabled (l_proxyConfig l) then
                               waitForProxyPropagation env (l_proxyConfig l)
                                 (logging ''Info''
                                    ''Waiting for the proxy configuration to be applied ...'' w1)
                             else w1))))))))"

definition Start_cluster ::
  "'h env \<Rightarrow> StartConfig \<Rightarrow> locals \<Rightarrow> 'h world \<Rightarrow> (StartResult \<times> error option) \<times> 'h world" where
  "Start_cluster env startConfig l w =
     (case call_bool env ''sd.IsActive'' [''kubelet''] w of
        ((_, Some e), w1) \<Rightarrow>
          (startError (sc_Name startConfig) ''kubelet service is not running'' e, w1)
      | ((kubeletStarted, None), w1) \<Rightarrow>
          if kubeletStarted then
            (case call_error env ''cluster.WaitforRequestHeaderClientCaFile'' []
                    (logging ''Debug'' ''Waiting for update of client-ca request header ...'' w1) of
               (Some e, w2) \<Rightarrow>
                 (startError (sc_Name startConfig)
                    ''Failed to wait for the client-ca request header update'' e, w2)
             | (None, w2) \<Rightarrow>
                 (case call_error env ''cluster.DeleteOpenshiftAPIServerPods'' [] w2 of
                    (Some e, w3) \<Rightarrow>
                      (startError (sc_Name startConfig)
                         ''Cannot delete OpenShift API Server pods'' e, w3)
                  | (None, w3) \<Rightarrow>
                      Start_finish env startConfig l kubeletStarted
                        (logging ''Info'' ''Starting OpenShift cluster ... [waiting 3m]'' w3)))
          else Start_finish env startConfig l kubeletStarted w1)"

subsection \<open>The whole function\<close>

text \<open>
  The steps in the order of the source, named from each point on; \<open>Start_rest\<close> runs
  steps and then the end of the function.
\<close>

definition Start_from_firstBoot :: "'h env \<Rightarrow> StartConfig \<Rightarrow> 'h step" where
  "Start_from_firstBoot env startConfig =
     andThen (Start_firstBoot env startConfig) (Start_kubelet env startConfig)"

definition Start_from_dnsChecks :: "'h env \<Rightarrow> StartConfig \<Rightarrow> 'h step" where
  "Start_from_dnsChecks env startConfig =
     andThen (Start_dnsChecks env startConfig) (Start_from_firstBoot env startConfig)"

definition Start_from_network :: "'h env \<Rightarrow> StartConfig \<Rightarrow> 'h step" where
  "Start_from_network env startConfig =
     andThen (Start_network env startConfig)
       (andThen (Start_dns env startConfig) (Start_from_dnsChecks env startConfig))"

definition Start_from_certs :: "'h env \<Rightarrow> StartConfig \<Rightarrow> 'h step" where
  "Start_from_certs env startConfig =
     andThen (Start_certs env startConfig) (Start_from_network env startConfig)"

definition Start_postVM :: "'h env \<Rightarrow> StartConfig \<Rightarrow> 'h step" where
  "Start_postVM env startConfig =
     andThen (Start_connect env startConfig) (Start_from_certs env startConfig)"

definition Start_steps :: "'h env \<Rightarrow> StartConfig \<Rightarrow> 'h step" where
  "Start_steps env startConfig =
     andThen (Start_preVM env startConfig) (Start_postVM env startConfig)"

definition Start_rest ::
  "'h env \<Rightarrow> StartConfig \<Rightarrow> 'h step \<Rightarrow> locals \<Rightarrow> 'h world
     \<Rightarrow> (StartResult \<times> error option) \<times> 'h world" where
  "Start_rest env startConfig steps l w =
     (case steps l w of
        (Inl r, w1) \<Rightarrow> (r, w1)
      | (Inr l1, w1) \<Rightarrow> Start_cluster env startConfig l1 w1)"

definition Start ::
  "'h env \<Rightarrow> StartConfig \<Rightarrow> 'h world \<Rightarrow> (StartResult \<times> error option) \<times> 'h world" where
  "Start env startConfig w =
     (case createLibMachineClient env (sc_Debug startConfig) w of
        ((cleanup, err), w1) \<Rightarrow>
          deferred cleanup
            (case err of
               Some e \<Rightarrow> (startError (sc_Name startConfig) ''Cannot initialize libmachine'' e, w1)
             | None \<Rightarrow> Start_rest env startConfig (Start_steps env startConfig) zeroLocals w1))"

section \<open>An example installation\<close>

text \<open>
  A concrete environment in which every collaborator succeeds, used to run the functions
  above on concrete inputs: one bundle, one instance named \<open>crc\<close>, a hypervisor whose
  state is a number (\<open>0\<close>: the VM is stopped).
\<close>

definition exampleBundle :: CrcBundleInfo where
  "exampleBundle =
     \<lparr>BaseDomain = ''crc.testing'', OpenshiftVersion = ''4.5.1'',
      DiskImagePath = ''/cache/crc.qcow2'', SSHKeyPath = ''/cache/id_rsa_crc'',
      KubeConfigPath = ''/cache/kubeconfig'', InitramfsPath = ''/cache/initramfs.img'',
      KernelPath = ''/cache/vmlinuz'', Nodes = [''console=ttyS0'']\<rparr>"

definition exampleHost :: host where
  "exampleHost = \<lparr>HostName = ''crc'', HostDriverName = ''libvirt'', RawDriver = ''{}''\<rparr>"

definition exampleEnv :: "nat env" where
  "exampleEnv =
     \<lparr>ext_error = (\<lambda>s f args. None),
      ext_string = (\<lambda>s f args.
        (if f = ''Driver.GetBundleName'' then ''crc_libvirt_4.5.1.crcbundle''
         else if f = ''Driver.GetIP'' then ''192.168.130.11''
         else if f = ''network.DetermineHostIP'' then ''192.168.130.1''
         else [], None)),
      ext_bool = (\<lambda>s f args. (True, None)),
      ext_mutate = (\<lambda>s f h. (None, h, if f = ''Driver.Remove'' then 0 else 1)),
      ext_state = (\<lambda>s h. (if hyp s = 0 then Stopped else Running, None)),
      ext_bundle = (\<lambda>s f n. Inr exampleBundle),
      ext_newhost = (\<lambda>s d p j. Inr exampleHost),
      ext_certs = (\<lambda>s. (CertNotExpired, None)),
      ext_operators = (\<lambda>s. (\<lparr>Available = True, Degraded = False, Progressing = False\<rparr>, None)),
      ext_usage = (\<lambda>s. ((32000, 12000), None)),
      ext_proxy = (\<lambda>s. Inr \<lparr>HTTPProxy = [], HTTPSProxy = [], noProxy = []\<rparr>),
      json_driverOptions = (\<lambda>mc. Inr ''{}''),
      LogFilePath = ''/home/u/.crc/crc.log'',
      DefaultWebConsoleURL = ''https://console-openshift-console.apps-crc.testing'',
      DefaultAPIURL = ''https://api.crc.testing:6443'',
      PrivateKeyPath = ''/home/u/.crc/id_rsa'',
      PublicKeyPath = ''/home/u/.crc/id_rsa.pub'',
      MachineInstanceDir = ''/home/u/.crc/machines'',
      DefaultDriver = ''libvirt'',
      DefaultDriverPath = ''/home/u/.crc/bin''\<rparr>"

definition runningSys :: "nat sys" where
  "runningSys = \<lparr>machines = [''crc'' \<mapsto> exampleHost], hyp = 1, now = 0\<rparr>"

definition stoppedSys :: "nat sys" where
  "stoppedSys = \<lparr>machines = [''crc'' \<mapsto> exampleHost], hyp = 0, now = 0\<rparr>"

definition emptySys :: "nat sys" where
  "emptySys = \<lparr>machines = Map.empty, hyp = 0, now = 0\<rparr>"

definition exampleProxy :: ProxyConfig where
  "exampleProxy =
     \<lparr>HTTPProxy = ''http://proxy.example.com:3128'', HTTPSProxy = [],
      noProxy = [''localhost'']\<rparr>"

section \<open>Traces\<close>

text \<open>
  \<open>grows w w'\<close>: the events of \<open>w'\<close> are those of \<open>w\<close> followed by further ones. No
  function of this file removes a recorded event.
\<close>

definition grows :: "'h world \<Rightarrow> 'h world \<Rightarrow> bool" where
  "grows w w' = (\<exists>evs. snd w' = snd w @ evs)"

text \<open>
  The calls of a \<^verbatim>\<open>createLibMachineClient\<close> that succeeds, and of an \<^verbatim>\<open>Exists\<close> whose client
  is created.
\<close>

definition clientCalls :: "'h env \<Rightarrow> bool \<Rightarrow> event list" where
  "clientCalls env debug =
     (if debug then [Call ''log.SetDebug'' []]
      else [Call ''log.SetDebug'' [], Call ''logging.OpenLogFile'' [LogFilePath env],
            Call ''log.SetOutWriter'' [], Call ''log.SetErrWriter'' []])
     @ [Call ''libmachine.NewClient'' []]"

definition existsCalls :: "'h env \<Rightarrow> string \<Rightarrow> event list" where
  "existsCalls env name =
     clientCalls env False
     @ [Call ''api.Exists'' [name], Call ''client.Close'' [], Call ''logging.CloseLogFile'' []]"

text \<open>The calls of a \<^verbatim>\<open>Start\<close> that finds its instance \<open>h\<close>, of bundle \<open>meta\<close>, running.\<close>

definition runningCalls :: "'h env \<Rightarrow> StartConfig \<Rightarrow> host \<Rightarrow> CrcBundleInfo \<Rightarrow> event list" where
  "runningCalls env cfg h meta =
     clientCalls env (sc_Debug cfg) @ existsCalls env (sc_Name cfg)
     @ [Call ''api.Load'' [sc_Name cfg],
        Call ''Driver.GetBundleName'' [HostName h],
        Call ''bundle.GetCachedBundleInfo'' [filepath_Base (sc_BundlePath cfg)],
        Call ''Driver.GetState'' [HostName h],
        Log ''Info''
          (if OpenshiftVersion meta = []
           then ''A CodeReady Containers VM is already running''
           else ''A CodeReady Containers VM for OpenShift %s is already running''),
        Call ''client.Close'' [], Call ''logging.CloseLogFile'' []]"

definition exampleStart :: StartConfig where
  "exampleStart =
     \<lparr>sc_Name = ''crc'', sc_BundlePath = ''/home/u/crc_libvirt_4.5.1.crcbundle'',
      sc_CPUs = 4, sc_Memory = 9216, sc_NameServer = [], sc_Debug = False\<rparr>"

text \<open>
  The calls of a \<^verbatim>\<open>Start\<close> that finds its instance \<open>h\<close> bound to another bundle \<open>b\<close>.
\<close>

definition mismatchCalls :: "'h env \<Rightarrow> StartConfig \<Rightarrow> host \<Rightarrow> string \<Rightarrow> event list" where
  "mismatchCalls env cfg h b =
     clientCalls env (sc_Debug cfg) @ existsCalls env (sc_Name cfg)
     @ [Call ''api.Load'' [sc_Name cfg],
        Call ''Driver.GetBundleName'' [HostName h],
        Call ''bundle.GetCachedBundleInfo'' [b],
        Log ''Debug'' ''Bundle %s was requested, but the existing VM is using %s'',
        Call ''client.Close'' [], Call ''logging.CloseLogFile'' []]"

text \<open>
  Runs of consecutive steps of \<^verbatim>\<open>Start\<close>: the steps before the certificate probe, those
  between the probe and the renewal, and those before the DNS checks.
\<close>

definition Start_upto_certs :: "'h env \<Rightarrow> StartConfig \<Rightarrow> 'h step" where
  "Start_upto_certs env startConfig =
     andThen (Start_preVM env startConfig) (Start_connect env startConfig)"

definition Start_network_to_firstBoot :: "'h env \<Rightarrow> StartConfig \<Rightarrow> 'h step" where
  "Start_network_to_firstBoot env startConfig =
     andThen (Start_network env startConfig)
       (andThen (Start_dns env startConfig)
          (andThen (Start_dnsChecks env startConfig) (Start_firstBoot env startConfig)))"

definition Start_upto_dnsChecks :: "'h env \<Rightarrow> StartConfig \<Rightarrow> 'h step" where
  "Start_upto_dnsChecks env startConfig =
     andThen (Start_upto_certs env startConfig)
       (andThen (Start_certs env startConfig)
          (andThen (Start_network env startConfig) (Start_dns env startConfig)))"

text \<open>The certificate probe's two events, added to a world.\<close>

definition probed :: "'h world \<Rightarrow> 'h world" where
  "probed w =
     emit (Call ''cluster.CheckCertsValidity'' [])
       (logging ''Info'' ''Verifying validity of the cluster certificates ...'' w)"

text \<open>The steps between the probe and the renewal leave \<open>needsCertsRenewal\<close> as it is.\<close>

definition keeps_renewal :: "'h step \<Rightarrow> bool" where
  "keeps_renewal p =
     (\<forall>l w l1 w1. p l w = (Inr l1, w1) \<longrightarrow> l_needsCertsRenewal l1 = l_needsCertsRenewal l)"









section \<open>Properties\<close>

lemmas prim_defs =
  createLibMachineClient_def closeClient_def setMachineLogging_def deferred_def api_Load_def api_Exists_def
  api_Save_def driver_call_def api_Remove_def call_error_def call_string_def call_bool_def
  emit_def unsetMachineLogging_def logging_def Driver_GetState_def

lemmas example_defs =
  exampleEnv_def exampleHost_def exampleBundle_def runningSys_def stoppedSys_def emptySys_def
  exampleProxy_def

subsection \<open>Every function only adds events\<close>

lemma grows_refl: "grows w w"
  by (simp add: grows_def)

lemma grows_trans: "grows w w1 \<Longrightarrow> grows w1 w2 \<Longrightarrow> grows w w2"
  by (auto simp: grows_def)

lemma grows_pair: "grows w0 w \<Longrightarrow> grows w0 (snd (r, w))"
  by simp

lemma grows_world:
  "grows w0 (snd X) \<Longrightarrow> (\<And>a w1. grows w0 w1 \<Longrightarrow> grows w0 (snd (F a w1)))
     \<Longrightarrow> grows w0 (snd (case_prod F (X :: 'a \<times> 'h world)))"
  by (cases X) simp

lemma grows_case_prod:
  "(\<And>a b. grows w0 (snd (F a b))) \<Longrightarrow> grows w0 (snd (case_prod F p))"
  by (cases p) simp

lemmas grows_inner =
  grows_case_prod [where ?'b = "error option"]
  grows_case_prod [where ?'b = string]
  grows_case_prod [where ?'b = ProxyConfig]
  grows_case_prod [where ?'b = unit]
  grows_case_prod [where ?'b = CrcBundleInfo]
  grows_case_prod [where ?'b = host]

lemma grows_case_option:
  "grows w0 (snd N) \<Longrightarrow> (\<And>e. grows w0 (snd (S e))) \<Longrightarrow> grows w0 (snd (case_option N S x))"
  by (cases x) simp_all

lemma grows_case_sum:
  "(\<And>e. grows w0 (snd (L e))) \<Longrightarrow> (\<And>v. grows w0 (snd (R v))) \<Longrightarrow> grows w0 (snd (case_sum L R x))"
  by (cases x) simp_all

lemma grows_case_list:
  "grows w0 (snd N) \<Longrightarrow> (\<And>y ys. grows w0 (snd (C y ys))) \<Longrightarrow> grows w0 (snd (case_list N C x))"
  by (cases x) simp_all

lemma grows_if:
  "(c \<Longrightarrow> grows w0 (snd P)) \<Longrightarrow> (\<not> c \<Longrightarrow> grows w0 (snd Q)) \<Longrightarrow> grows w0 (snd (if c then P else Q))"
  by simp

lemma grows_if_world:
  "(c \<Longrightarrow> grows w0 P) \<Longrightarrow> (\<not> c \<Longrightarrow> grows w0 Q) \<Longrightarrow> grows w0 (if c then P else Q)"
  by simp

lemma grows_case_option_world:
  "grows w0 N \<Longrightarrow> (\<And>e. grows w0 (S e)) \<Longrightarrow> grows w0 (case_option N S x)"
  by (cases x) simp_all

lemma grows_prims:
  "grows w0 w \<Longrightarrow> grows w0 (emit e w)"
  "grows w0 w \<Longrightarrow> grows w0 (logging lv m w)"
  "grows w0 w \<Longrightarrow> grows w0 (time_Sleep d w)"
  "grows w0 w \<Longrightarrow> grows w0 (ApplyToEnvironment p w)"
  "grows w0 w \<Longrightarrow> grows w0 (unsetMachineLogging w)"
  "grows w0 w \<Longrightarrow> grows w0 (snd (call_error env f args w))"
  "grows w0 w \<Longrightarrow> grows w0 (snd (call_string env f args w))"
  "grows w0 w \<Longrightarrow> grows w0 (snd (call_bool env f args w))"
  "grows w0 w \<Longrightarrow> grows w0 (snd (api_Load env n w))"
  "grows w0 w \<Longrightarrow> grows w0 (snd (api_Save env h w))"
  "grows w0 w \<Longrightarrow> grows w0 (snd (api_Create env h w))"
  "grows w0 w \<Longrightarrow> grows w0 (snd (driver_call env f h w))"
  "grows w0 w \<Longrightarrow> grows w0 (snd (Driver_GetState env h w))"
  "grows w0 w \<Longrightarrow> grows w0 (snd (cluster_CheckCertsValidity env w))"
  "grows w0 w \<Longrightarrow> grows w0 (snd (getProxyConfig env bd w))"
  "grows w0 w \<Longrightarrow> grows w0 (snd (bundle_GetCachedBundleInfo env n w))"
  "grows w0 w \<Longrightarrow> grows w0 (snd (bundle_Extract env n w))"
  unfolding prim_defs time_Sleep_def ApplyToEnvironment_def api_Create_def
    cluster_CheckCertsValidity_def getProxyConfig_def bundle_GetCachedBundleInfo_def
    bundle_Extract_def
  by (auto simp: grows_def split: option.splits sum.splits prod.splits)

lemmas grows_rules =
  grows_pair grows_prims grows_world grows_inner grows_case_option grows_case_sum
  grows_case_list grows_if grows_if_world grows_case_option_world

lemma grows_RetryAfter_loop:
  assumes "\<And>c w. grows w (snd (action c w))"
  shows "grows w (snd (RetryAfter_loop k action d c w))"
proof (induction k arbitrary: c w)
  case 0
  then show ?case by (simp add: grows_refl)
next
  case (Suc k)
  obtain r c1 w1 where a: "action c w = ((r, c1), w1)"
    by (metis prod.exhaust)
  have g: "grows w w1" using assms [of w c] a by simp
  have s: "grows w1 (time_Sleep d w1)" by (simp add: grows_def time_Sleep_def)
  show ?case
  proof (cases r)
    case None
    then show ?thesis using a g by simp
  next
    case (Some e)
    then show ?thesis
      using a g grows_trans [OF grows_trans [OF g s] Suc.IH [of "time_Sleep d w1" c1]]
      by simp
  qed
qed

lemma grows_RetryAfter:
  assumes "\<And>c w. grows w (snd (action c w))" and "grows w0 w"
  shows "grows w0 (snd (RetryAfter n action d c w))"
  unfolding RetryAfter_def
  using grows_trans [OF assms(2) grows_RetryAfter_loop [of action w, OF assms(1)]] .

lemma grows_check: "grows w (snd (checkProxySettingsForOperator env p u w))"
  unfolding checkProxySettingsForOperator_def
  by (intro grows_rules grows_refl)

lemma grows_wait: "grows w0 w \<Longrightarrow> grows w0 (waitForProxyPropagation env p w)"
  unfolding waitForProxyPropagation_def
  using grows_RetryAfter [of "checkProxySettingsForOperator env p" w0 w 60 "2 * Second" "()", OF grows_check]
  by (auto simp: grows_def logging_def emit_def split: prod.splits option.splits)

lemma grows_finish: "grows w0 w \<Longrightarrow> grows w0 (snd (Start_finish env cfg l k w))"
  unfolding Start_finish_def
  by (intro grows_rules grows_wait) 

lemma grows_cluster: "grows w0 w \<Longrightarrow> grows w0 (snd (Start_cluster env cfg l w))"
  unfolding Start_cluster_def
  by (intro grows_rules grows_finish) 

lemma grows_getClusterConfig: "grows w0 w \<Longrightarrow> grows w0 (snd (getClusterConfig env b w))"
  unfolding getClusterConfig_def
  by (intro grows_rules) 

lemma grows_connect: "grows w0 w \<Longrightarrow> grows w0 (snd (Start_connect env cfg l w))"
  unfolding Start_connect_def
  by (intro grows_rules grows_getClusterConfig)

lemma grows_certs: "grows w0 w \<Longrightarrow> grows w0 (snd (Start_certs env cfg l w))"
  unfolding Start_certs_def
  by (intro grows_rules)

lemma grows_determineHostIP: "grows w (snd (determineHostIP env ip c w))"
  unfolding determineHostIP_def
  by (intro grows_rules grows_refl)

lemma grows_hostIP: "grows w0 w \<Longrightarrow> grows w0 (snd (Start_hostIP env cfg l w))"
  unfolding Start_hostIP_def
  by (intro grows_rules grows_RetryAfter grows_determineHostIP)

lemma grows_addNameServer: "grows w0 w \<Longrightarrow> grows w0 (snd (addNameServerToInstance env ns w))"
  unfolding addNameServerToInstance_def
  by (intro grows_rules)

lemma grows_network: "grows w0 w \<Longrightarrow> grows w0 (snd (Start_network env cfg l w))"
  unfolding Start_network_def 
  by (intro grows_rules grows_hostIP grows_addNameServer)

lemma grows_dns: "grows w0 w \<Longrightarrow> grows w0 (snd (Start_dns env cfg l w))"
  unfolding Start_dns_def
  by (intro grows_rules)

lemma grows_dnsChecks: "grows w0 w \<Longrightarrow> grows w0 (snd (Start_dnsChecks env cfg l w))"
  unfolding Start_dnsChecks_def 
  by (intro grows_rules)

lemma grows_updateSSHKeyPair: "grows w0 w \<Longrightarrow> grows w0 (snd (updateSSHKeyPair env r w))"
  unfolding updateSSHKeyPair_def 
  by (intro grows_rules)

lemma grows_firstBoot: "grows w0 w \<Longrightarrow> grows w0 (snd (Start_firstBoot env cfg l w))"
  unfolding Start_firstBoot_def
  by (intro grows_rules grows_updateSSHKeyPair)

lemma grows_restartServices: "grows w0 w \<Longrightarrow> grows w0 (snd (restartServices env p e w))"
  unfolding restartServices_def
  by (intro grows_rules)

lemma grows_configProxyForCluster: "grows w0 w \<Longrightarrow> grows w0 (snd (configProxyForCluster env p ip w))"
  unfolding configProxyForCluster_def Let_def
  by (intro grows_rules grows_restartServices)

lemma grows_configureCluster: "grows w0 w \<Longrightarrow> grows w0 (snd (configureCluster env p ps ip w))"
  unfolding configureCluster_def
  by (intro grows_rules grows_configProxyForCluster)

lemma grows_startKubelet: "grows w0 w \<Longrightarrow> grows w0 (snd (Start_startKubelet env cfg l w))"
  unfolding Start_startKubelet_def
  by (intro grows_rules grows_configureCluster)

lemma grows_kubelet: "grows w0 w \<Longrightarrow> grows w0 (snd (Start_kubelet env cfg l w))"
  unfolding Start_kubelet_def 
  by (intro grows_rules grows_startKubelet)
    (auto simp: grows_def prim_defs split: prod.splits option.splits)

lemma grows_andThen:
  assumes "\<And>l w. grows w0 w \<Longrightarrow> grows w0 (snd (p l w))"
      and "\<And>l w. grows w0 w \<Longrightarrow> grows w0 (snd (q l w))"
      and "grows w0 w"
  shows "grows w0 (snd (andThen p q l w))"
  unfolding andThen_def
  by (intro grows_rules assms)

lemma grows_postVM: "grows w0 w \<Longrightarrow> grows w0 (snd (Start_postVM env cfg l w))"
  unfolding Start_postVM_def Start_from_certs_def Start_from_network_def Start_from_dnsChecks_def
    Start_from_firstBoot_def
  by (intro grows_andThen grows_firstBoot grows_kubelet grows_dnsChecks grows_dns grows_network
      grows_certs grows_connect)

lemma grows_rest:
  assumes "\<And>l w. grows w0 w \<Longrightarrow> grows w0 (snd (steps l w))" and "grows w0 w"
  shows "grows w0 (snd (Start_rest env cfg steps l w))"
  unfolding Start_rest_def
  by (intro grows_rules assms grows_cluster)

subsection \<open>Delete\<close>

text \<open>
  C6. \<^verbatim>\<open>Delete\<close> removes the persisted record only after the driver's removal has
  succeeded. First conjunct, for every environment and state: if the records differ after
  \<open>Delete\<close>, or the store's \<open>Remove\<close> was called at all, then the instance was recorded and
  the driver's \<open>Remove\<close> returned no error. Second conjunct: when the client is
  initialised, the instance \<open>h\<close> loads and the driver's \<open>Remove\<close> returns the error \<open>e\<close>,
  \<open>Delete\<close> returns the failure ``Driver cannot remove machine'' with cause \<open>e\<close>; the
  only change of state is the hypervisor's, the records are the same, and the calls made
  are exactly the listed ones, the store's \<open>Remove\<close> not among them.
\<close>

theorem Delete_ordering:
  "(machines (fst (snd (Delete env cfg (s, [])))) \<noteq> machines s
      \<or> Call ''api.Remove'' [dc_Name cfg] \<in> set (snd (snd (Delete env cfg (s, []))))
    \<longrightarrow> (\<exists>h. machines s (dc_Name cfg) = Some h
              \<and> fst (ext_mutate env s ''Driver.Remove'' h) = None))
   \<and> (ext_error env s ''logging.OpenLogFile'' [LogFilePath env] = None
      \<and> ext_error env s ''api.Load'' [dc_Name cfg] = None
      \<and> machines s (dc_Name cfg) = Some h
      \<and> ext_mutate env s ''Driver.Remove'' h = (Some e, h', hy)
    \<longrightarrow> Delete env cfg (s, []) =
          (deleteError (dc_Name cfg) ''Driver cannot remove machine'' e,
           (s\<lparr>hyp := hy\<rparr>,
            [Call ''log.SetDebug'' [], Call ''logging.OpenLogFile'' [LogFilePath env],
             Call ''log.SetOutWriter'' [], Call ''log.SetErrWriter'' [],
             Call ''libmachine.NewClient'' [], Call ''api.Load'' [dc_Name cfg],
             Call ''Driver.Remove'' [HostName h], Call ''client.Close'' [],
             Call ''logging.CloseLogFile'' []])))"
proof (intro conjI impI)
  assume "machines (fst (snd (Delete env cfg (s, [])))) \<noteq> machines s
      \<or> Call ''api.Remove'' [dc_Name cfg] \<in> set (snd (snd (Delete env cfg (s, []))))"
  then show "\<exists>h. machines s (dc_Name cfg) = Some h
              \<and> fst (ext_mutate env s ''Driver.Remove'' h) = None"
    unfolding Delete_def prim_defs deleteError_def
    by (auto split: option.splits sum.splits prod.splits if_splits)
next
  assume "ext_error env s ''logging.OpenLogFile'' [LogFilePath env] = None
      \<and> ext_error env s ''api.Load'' [dc_Name cfg] = None
      \<and> machines s (dc_Name cfg) = Some h
      \<and> ext_mutate env s ''Driver.Remove'' h = (Some e, h', hy)"
  then show "Delete env cfg (s, []) =
          (deleteError (dc_Name cfg) ''Driver cannot remove machine'' e,
           (s\<lparr>hyp := hy\<rparr>,
            [Call ''log.SetDebug'' [], Call ''logging.OpenLogFile'' [LogFilePath env],
             Call ''log.SetOutWriter'' [], Call ''log.SetErrWriter'' [],
             Call ''libmachine.NewClient'' [], Call ''api.Load'' [dc_Name cfg],
             Call ''Driver.Remove'' [HostName h], Call ''client.Close'' [],
             Call ''logging.CloseLogFile'' []]))"
    unfolding Delete_def prim_defs deleteError_def
    by simp
qed

text \<open>
  Both cases on the example: a \<open>Delete\<close> that reaches the store's \<open>Remove\<close> (the driver's
  removal succeeded), and one whose driver reports a busy domain (the record stays).
\<close>

theorem Delete_ordering_witness:
  "Call ''api.Remove'' [''crc'']
     \<in> set (snd (snd (Delete exampleEnv \<lparr>dc_Name = ''crc''\<rparr> (runningSys, []))))
   \<and> fst (ext_mutate exampleEnv runningSys ''Driver.Remove'' exampleHost) = None
   \<and> machines (fst (snd (Delete
         (exampleEnv\<lparr>ext_mutate := \<lambda>s f h. (Some (Err ''domain is busy''), h, hyp s)\<rparr>)
         \<lparr>dc_Name = ''crc''\<rparr> (runningSys, [])))) ''crc'' = Some exampleHost
   \<and> fst (Delete
         (exampleEnv\<lparr>ext_mutate := \<lambda>s f h. (Some (Err ''domain is busy''), h, hyp s)\<rparr>)
         \<lparr>dc_Name = ''crc''\<rparr> (runningSys, []))
      = (\<lparr>dr_Name = ''crc'', dr_Success = False\<rparr>,
         Some (Wrap ''Driver cannot remove machine'' (Err ''domain is busy'')))"
  using Delete_ordering [of "exampleEnv" "\<lparr>dc_Name = ''crc''\<rparr>" runningSys]
    Delete_ordering
      [of "exampleEnv\<lparr>ext_mutate := \<lambda>s f h. (Some (Err ''domain is busy''), h, hyp s)\<rparr>"
          "\<lparr>dc_Name = ''crc''\<rparr>" runningSys exampleHost "Err ''domain is busy''" exampleHost 1]
  by (simp add: example_defs Delete_def prim_defs deleteError_def)

subsection \<open>Proxy policy\<close>

text \<open>
  C7. For every base domain, a proxy configuration resolved by \<^verbatim>\<open>getProxyConfig\<close> has
  \<open>.baseDomain\<close> in its no-proxy list whenever a proxy URL is set (which is when it is
  enabled); and when no proxy URL is set it is not enabled, whatever the no-proxy list
  holds.
\<close>

theorem getProxyConfig_noProxy:
  assumes "getProxyConfig env baseDomain w = (Inr p, w')"
  shows "((HTTPProxy p \<noteq> [] \<or> HTTPSProxy p \<noteq> []) \<longrightarrow>
            IsEnabled p \<and> ''.'' @ baseDomain \<in> set (noProxy p))
         \<and> (HTTPProxy p = [] \<and> HTTPSProxy p = [] \<longrightarrow>
              (\<forall>entries. \<not> IsEnabled (p\<lparr>noProxy := entries\<rparr>)))"
  using assms
  unfolding getProxyConfig_def IsEnabled_def AddNoProxy_def
  by (auto split: sum.splits if_splits)

theorem getProxyConfig_noProxy_witness:
  "getProxyConfig (exampleEnv\<lparr>ext_proxy := \<lambda>s. Inr exampleProxy\<rparr>) ''crc.testing'' (runningSys, [])
     = (Inr (exampleProxy\<lparr>noProxy := [''localhost'', ''.crc.testing'']\<rparr>),
        (runningSys, [Call ''network.NewProxyConfig'' []]))
   \<and> ''.crc.testing'' \<in> set (noProxy (exampleProxy\<lparr>noProxy := [''localhost'', ''.crc.testing'']\<rparr>))
   \<and> getProxyConfig exampleEnv ''crc.testing'' (runningSys, [])
     = (Inr \<lparr>HTTPProxy = [], HTTPSProxy = [], noProxy = []\<rparr>,
        (runningSys, [Call ''network.NewProxyConfig'' []]))
   \<and> \<not> IsEnabled \<lparr>HTTPProxy = [], HTTPSProxy = [], noProxy = [''.crc.testing'']\<rparr>"
  using getProxyConfig_noProxy
      [of "exampleEnv\<lparr>ext_proxy := \<lambda>s. Inr exampleProxy\<rparr>" "''crc.testing''" "(runningSys, [])"
          "exampleProxy\<lparr>noProxy := [''localhost'', ''.crc.testing'']\<rparr>"
          "(runningSys, [Call ''network.NewProxyConfig'' []])"]
    getProxyConfig_noProxy
      [of exampleEnv "''crc.testing''" "(runningSys, [])"
          "\<lparr>HTTPProxy = [], HTTPSProxy = [], noProxy = []\<rparr>"
          "(runningSys, [Call ''network.NewProxyConfig'' []])"]
  by (simp add: example_defs getProxyConfig_def IsEnabled_def AddNoProxy_def emit_def)

text \<open>
  C9. With a proxy enabled, \<^verbatim>\<open>configProxyForCluster\<close> (called by \<^verbatim>\<open>configureCluster\<close> on the
  first boot) always ends with the restart of crio and then of kubelet, after the push of
  the proxy settings into the cluster: whether that push fails (then nothing is pushed
  to the services, \<open>pushed = []\<close>) or succeeds (then the settings are pushed to kubelet
  and crio, and this second push may fail or succeed).
\<close>

theorem configProxyForCluster_restarts:
  assumes "IsEnabled proxy"
  shows "\<exists>pushed.
           snd (snd (configProxyForCluster env proxy instanceIP (s, tr))) =
             tr @ [Log ''Info'' ''Adding proxy configuration to the cluster ...'',
                   Call ''cluster.AddProxyConfigToCluster''
                     (HTTPProxy proxy # HTTPSProxy proxy # noProxy proxy @ [instanceIP])]
                @ pushed
                @ [Call ''sd.Restart'' [''crio''], Call ''sd.Restart'' [''kubelet'']]
           \<and> (pushed = [] \<or>
                pushed = [Log ''Info'' ''Adding proxy configuration to kubelet and crio service ...'',
                          Call ''cluster.AddProxyToKubeletAndCriO''
                            (HTTPProxy proxy # HTTPSProxy proxy # noProxy proxy @ [instanceIP])])"
  using assms
  unfolding configProxyForCluster_def restartServices_def prim_defs IsEnabled_def AddNoProxy_def
    Let_def
  by (auto split: option.splits prod.splits)

text \<open>On the example, with a cluster that refuses the proxy settings: the restarts still run.\<close>

theorem configProxyForCluster_restarts_witness:
  "IsEnabled exampleProxy
   \<and> configProxyForCluster
       (exampleEnv\<lparr>ext_error := \<lambda>s f args.
          if f = ''cluster.AddProxyConfigToCluster'' then Some (Err ''forbidden'') else None\<rparr>)
       exampleProxy ''192.168.130.11'' (runningSys, [])
     = ((Some (Err ''forbidden''),
         exampleProxy\<lparr>noProxy := [''localhost'', ''192.168.130.11'']\<rparr>),
        (runningSys,
         [Log ''Info'' ''Adding proxy configuration to the cluster ...'',
          Call ''cluster.AddProxyConfigToCluster''
            [''http://proxy.example.com:3128'', [], ''localhost'', ''192.168.130.11''],
          Call ''sd.Restart'' [''crio''], Call ''sd.Restart'' [''kubelet'']]))"
  using configProxyForCluster_restarts
      [of exampleProxy
          "exampleEnv\<lparr>ext_error := \<lambda>s f args.
             if f = ''cluster.AddProxyConfigToCluster'' then Some (Err ''forbidden'') else None\<rparr>"
          "''192.168.130.11''" runningSys "[]"]
  by (simp add: example_defs configProxyForCluster_def restartServices_def prim_defs
      IsEnabled_def AddNoProxy_def Let_def)

subsection \<open>Status\<close>




subsection \<open>Start: the steps in sequence\<close>

lemma filepath_Base_nonempty: "filepath_Base path \<noteq> []"
  unfolding filepath_Base_def Let_def by simp

lemma andThen_Inr: "p l w = (Inr l1, w1) \<Longrightarrow> andThen p q l w = q l1 w1"
  by (simp add: andThen_def)

lemma andThen_Inl: "p l w = (Inl r, w1) \<Longrightarrow> andThen p q l w = (Inl r, w1)"
  by (simp add: andThen_def)

lemma Start_rest_Inr:
  "p l w = (Inr l1, w1) \<Longrightarrow> Start_rest env cfg (andThen p q) l w = Start_rest env cfg q l1 w1"
  by (simp add: Start_rest_def andThen_def)

lemma Start_rest_Inl:
  "p l w = (Inl r, w1) \<Longrightarrow> Start_rest env cfg (andThen p q) l w = (r, w1)"
  by (simp add: Start_rest_def andThen_def)

lemma createLibMachineClient_ok:
  assumes "debug \<or> ext_error env s ''logging.OpenLogFile'' [LogFilePath env] = None"
  shows "createLibMachineClient env debug (s, tr) =
           ((closeClient, None), (s, tr @ clientCalls env debug))"
  using assms
  unfolding createLibMachineClient_def setMachineLogging_def call_error_def emit_def
    clientCalls_def
  by auto

lemma Exists_ok:
  assumes "ext_error env s ''logging.OpenLogFile'' [LogFilePath env] = None"
  shows "Exists env name (s, tr) =
           ((case ext_error env s ''api.Exists'' [name] of
               Some e \<Rightarrow> (False, Some (Wrap ''Error checking if the host exists'' e))
             | None \<Rightarrow> (machines s name \<noteq> None, None)),
            (s, tr @ existsCalls env name))"
  using assms
  unfolding Exists_def existsCalls_def
  by (simp add: createLibMachineClient_ok api_Exists_def deferred_def closeClient_def
      unsetMachineLogging_def emit_def split: option.splits)

lemma Start_client:
  assumes "ext_error env s ''logging.OpenLogFile'' [LogFilePath env] = None"
  shows "Start env cfg (s, tr) =
           deferred closeClient
             (Start_rest env cfg (Start_steps env cfg) zeroLocals
                (s, tr @ clientCalls env (sc_Debug cfg)))"
  using assms
  unfolding Start_def
  by (simp add: createLibMachineClient_ok)

lemma Start_existing_branch:
  assumes "ext_error env s ''logging.OpenLogFile'' [LogFilePath env] = None"
      and "ext_error env s ''api.Exists'' [sc_Name cfg] = None"
      and "machines s (sc_Name cfg) = Some h"
  shows "Start env cfg (s, tr) =
           deferred closeClient
             (Start_rest env cfg (andThen (Start_existing env cfg) (Start_postVM env cfg))
                zeroLocals
                (s, tr @ clientCalls env (sc_Debug cfg) @ existsCalls env (sc_Name cfg)))"
  using assms
  by (simp add: Start_client Start_steps_def Start_rest_def andThen_def Start_preVM_def Exists_ok)

lemma Start_create_branch:
  assumes "ext_error env s ''logging.OpenLogFile'' [LogFilePath env] = None"
      and "ext_error env s ''api.Exists'' [sc_Name cfg] = Some e"
  shows "Start env cfg (s, tr) =
           deferred closeClient
             (Start_rest env cfg (andThen (Start_create env cfg) (Start_postVM env cfg))
                zeroLocals
                (s, tr @ clientCalls env (sc_Debug cfg) @ existsCalls env (sc_Name cfg)))"
  using assms
  by (simp add: Start_client Start_steps_def Start_rest_def andThen_def Start_preVM_def Exists_ok)

lemma Start_existing_running:
  assumes ld: "ext_error env s ''api.Load'' [sc_Name cfg] = None"
              "machines s (sc_Name cfg) = Some h"
      and bname: "ext_string env s ''Driver.GetBundleName'' [HostName h] =
                    (filepath_Base (sc_BundlePath cfg), None)"
                 "ext_bundle env s ''bundle.GetCachedBundleInfo'' (filepath_Base (sc_BundlePath cfg))
                    = Inr meta"
      and running: "ext_state env s h = (Running, None)"
  shows "Start_existing env cfg l (s, tr) =
           (Inl (\<lparr>sr_Name = sc_Name cfg, sr_Status = ''Running'', sr_KubeletStarted = False,
              sr_ClusterConfig = zeroClusterConfig\<rparr>, None),
            (s, tr @ [Call ''api.Load'' [sc_Name cfg],
                  Call ''Driver.GetBundleName'' [HostName h],
                  Call ''bundle.GetCachedBundleInfo'' [filepath_Base (sc_BundlePath cfg)],
                  Call ''Driver.GetState'' [HostName h],
                  Log ''Info''
                    (if OpenshiftVersion meta = []
                     then ''A CodeReady Containers VM is already running''
                     else ''A CodeReady Containers VM for OpenShift %s is already running'')]))"
  using assms filepath_Base_nonempty [of "sc_BundlePath cfg"]
  unfolding Start_existing_def getBundleMetadataFromDriver_def bundle_GetCachedBundleInfo_def
    IsRunning_def prim_defs
  by simp

lemma Start_running_aux:
  assumes client: "ext_error env s ''logging.OpenLogFile'' [LogFilePath env] = None"
      and ex: "ext_error env s ''api.Exists'' [sc_Name cfg] = None"
      and ld: "ext_error env s ''api.Load'' [sc_Name cfg] = None"
              "machines s (sc_Name cfg) = Some h"
      and bname: "ext_string env s ''Driver.GetBundleName'' [HostName h] =
                    (filepath_Base (sc_BundlePath cfg), None)"
                 "ext_bundle env s ''bundle.GetCachedBundleInfo'' (filepath_Base (sc_BundlePath cfg))
                    = Inr meta"
      and running: "ext_state env s h = (Running, None)"
  shows "Start env cfg (s, tr) =
           ((\<lparr>sr_Name = sc_Name cfg, sr_Status = ''Running'', sr_KubeletStarted = False,
              sr_ClusterConfig = zeroClusterConfig\<rparr>, None),
            (s, tr @ runningCalls env cfg h meta))"
  using Start_existing_running [OF ld bname running, of zeroLocals
      "tr @ clientCalls env (sc_Debug cfg) @ existsCalls env (sc_Name cfg)"]
  by (simp add: Start_existing_branch [OF client ex ld(2)] Start_rest_def andThen_def
      deferred_def closeClient_def unsetMachineLogging_def emit_def runningCalls_def)

subsection \<open>Start on a running instance\<close>

text \<open>
  C1. When the instance is recorded and loads, its bundle is the requested one and the
  driver reports the state \<open>Running\<close>, \<^verbatim>\<open>Start\<close> returns a success result (no error)
  carrying that state; the state of the system is unchanged (no record saved, hypervisor
  untouched, nothing waited), and the calls made are \<open>runningCalls\<close>: the client, the
  existence check, the load, the bundle name and metadata, the state, one log line and
  the cleanup; so \<^verbatim>\<open>Driver.Start\<close>, the store's \<open>Save\<close> and every post-start step are absent
  (third and fourth conjunct). A second \<^verbatim>\<open>Start\<close> right after the first returns the same
  result, leaves the same state and makes the same calls again (second conjunct).
\<close>

theorem Start_idempotent_when_running:
  assumes client: "ext_error env s ''logging.OpenLogFile'' [LogFilePath env] = None"
      and ex: "ext_error env s ''api.Exists'' [sc_Name cfg] = None"
      and ld: "ext_error env s ''api.Load'' [sc_Name cfg] = None"
              "machines s (sc_Name cfg) = Some h"
      and bname: "ext_string env s ''Driver.GetBundleName'' [HostName h] =
                    (filepath_Base (sc_BundlePath cfg), None)"
                 "ext_bundle env s ''bundle.GetCachedBundleInfo'' (filepath_Base (sc_BundlePath cfg))
                    = Inr meta"
      and running: "ext_state env s h = (Running, None)"
  shows "Start env cfg (s, tr) =
           ((\<lparr>sr_Name = sc_Name cfg, sr_Status = state_String Running,
              sr_KubeletStarted = False, sr_ClusterConfig = zeroClusterConfig\<rparr>, None),
            (s, tr @ runningCalls env cfg h meta))
         \<and> Start env cfg (snd (Start env cfg (s, tr))) =
           ((\<lparr>sr_Name = sc_Name cfg, sr_Status = state_String Running,
              sr_KubeletStarted = False, sr_ClusterConfig = zeroClusterConfig\<rparr>, None),
            (s, tr @ runningCalls env cfg h meta @ runningCalls env cfg h meta))
         \<and> (\<forall>f args. Call f args \<in> set (runningCalls env cfg h meta) \<longrightarrow>
               f \<in> set [''log.SetDebug'', ''logging.OpenLogFile'', ''log.SetOutWriter'',
                         ''log.SetErrWriter'', ''libmachine.NewClient'', ''api.Exists'',
                         ''client.Close'', ''logging.CloseLogFile'', ''api.Load'',
                         ''Driver.GetBundleName'', ''bundle.GetCachedBundleInfo'',
                         ''Driver.GetState''])
         \<and> (\<forall>d. Sleep d \<notin> set (runningCalls env cfg h meta))"
proof (intro conjI)
  show first: "Start env cfg (s, tr) =
           ((\<lparr>sr_Name = sc_Name cfg, sr_Status = state_String Running,
              sr_KubeletStarted = False, sr_ClusterConfig = zeroClusterConfig\<rparr>, None),
            (s, tr @ runningCalls env cfg h meta))"
    using Start_running_aux [OF assms] by simp
  show "Start env cfg (snd (Start env cfg (s, tr))) =
           ((\<lparr>sr_Name = sc_Name cfg, sr_Status = state_String Running,
              sr_KubeletStarted = False, sr_ClusterConfig = zeroClusterConfig\<rparr>, None),
            (s, tr @ runningCalls env cfg h meta @ runningCalls env cfg h meta))"
    using Start_running_aux [OF assms, of "tr @ runningCalls env cfg h meta"]
    by (simp add: first)
  show "\<forall>f args. Call f args \<in> set (runningCalls env cfg h meta) \<longrightarrow>
               f \<in> set [''log.SetDebug'', ''logging.OpenLogFile'', ''log.SetOutWriter'',
                         ''log.SetErrWriter'', ''libmachine.NewClient'', ''api.Exists'',
                         ''client.Close'', ''logging.CloseLogFile'', ''api.Load'',
                         ''Driver.GetBundleName'', ''bundle.GetCachedBundleInfo'',
                         ''Driver.GetState'']"
    unfolding runningCalls_def existsCalls_def clientCalls_def
    by auto
  show "\<forall>d. Sleep d \<notin> set (runningCalls env cfg h meta)"
    unfolding runningCalls_def existsCalls_def clientCalls_def
    by auto
qed

text \<open>On the example: the instance \<open>crc\<close> is recorded and its VM runs.\<close>

lemma exampleStart_Base: "filepath_Base (sc_BundlePath exampleStart) = ''crc_libvirt_4.5.1.crcbundle''"
  by (simp add: exampleStart_def filepath_Base_def Let_def)

theorem Start_idempotent_when_running_witness:
  "Start exampleEnv exampleStart (runningSys, []) =
     ((\<lparr>sr_Name = ''crc'', sr_Status = ''Running'', sr_KubeletStarted = False,
        sr_ClusterConfig = zeroClusterConfig\<rparr>, None),
      (runningSys, runningCalls exampleEnv exampleStart exampleHost exampleBundle))
   \<and> fst (Start exampleEnv exampleStart (snd (Start exampleEnv exampleStart (runningSys, [])))) =
     (\<lparr>sr_Name = ''crc'', sr_Status = ''Running'', sr_KubeletStarted = False,
       sr_ClusterConfig = zeroClusterConfig\<rparr>, None)
   \<and> Call ''Driver.Start'' [''crc''] \<notin> set (runningCalls exampleEnv exampleStart exampleHost exampleBundle)
   \<and> Call ''api.Save'' [''crc''] \<notin> set (runningCalls exampleEnv exampleStart exampleHost exampleBundle)"
proof -
  have h: "ext_error exampleEnv runningSys ''logging.OpenLogFile'' [LogFilePath exampleEnv] = None"
    "ext_error exampleEnv runningSys ''api.Exists'' [sc_Name exampleStart] = None"
    "ext_error exampleEnv runningSys ''api.Load'' [sc_Name exampleStart] = None"
    "machines runningSys (sc_Name exampleStart) = Some exampleHost"
    "ext_string exampleEnv runningSys ''Driver.GetBundleName'' [HostName exampleHost] =
       (filepath_Base (sc_BundlePath exampleStart), None)"
    "ext_bundle exampleEnv runningSys ''bundle.GetCachedBundleInfo''
       (filepath_Base (sc_BundlePath exampleStart)) = Inr exampleBundle"
    "ext_state exampleEnv runningSys exampleHost = (Running, None)"
    by (simp_all add: exampleStart_Base) (simp_all add: exampleEnv_def runningSys_def exampleStart_def)
  note t = Start_idempotent_when_running [OF h, of "[]"]
  have m: "Call f args \<in> set (runningCalls exampleEnv exampleStart exampleHost exampleBundle) \<Longrightarrow>
       f \<in> set [''log.SetDebug'', ''logging.OpenLogFile'', ''log.SetOutWriter'',
                         ''log.SetErrWriter'', ''libmachine.NewClient'', ''api.Exists'',
                         ''client.Close'', ''logging.CloseLogFile'', ''api.Load'',
                         ''Driver.GetBundleName'', ''bundle.GetCachedBundleInfo'',
                         ''Driver.GetState'']" for f args
    using t by blast
  show ?thesis
    using t m [of "''Driver.Start''" "[''crc'']"] m [of "''api.Save''" "[''crc'']"]
    by (auto simp: exampleStart_def)
qed

subsection \<open>Start with another bundle\<close>

lemma Start_existing_mismatch:
  assumes ld: "ext_error env s ''api.Load'' [sc_Name cfg] = None"
              "machines s (sc_Name cfg) = Some h"
      and bname: "ext_string env s ''Driver.GetBundleName'' [HostName h] = (b, None)"
                 "b \<noteq> []" "b \<noteq> filepath_Base (sc_BundlePath cfg)"
                 "ext_bundle env s ''bundle.GetCachedBundleInfo'' b = Inr meta"
  shows "Start_existing env cfg l (s, tr) =
           (Inl (startError (sc_Name cfg) ''Invalid bundle''
                   (Err (''Bundle '' @ filepath_Base (sc_BundlePath cfg)
                         @ '' was requested, but the existing VM is using '' @ b))),
            (s, tr @ [Call ''api.Load'' [sc_Name cfg],
                  Call ''Driver.GetBundleName'' [HostName h],
                  Call ''bundle.GetCachedBundleInfo'' [b],
                  Log ''Debug'' ''Bundle %s was requested, but the existing VM is using %s'']))"
  using assms
  unfolding Start_existing_def getBundleMetadataFromDriver_def bundle_GetCachedBundleInfo_def
    prim_defs
  by simp

text \<open>
  C2. When the instance is recorded and loads, the driver reports that it was created
  from bundle \<open>b\<close> (whose metadata is cached), and the base name of the requested bundle
  path is not \<open>b\<close>, \<^verbatim>\<open>Start\<close> fails with the error ``Invalid bundle''; the state of the
  system is unchanged and the calls made are \<open>mismatchCalls\<close>, which hold no
  \<^verbatim>\<open>Driver.Start\<close>, no \<open>Save\<close> and no \<open>Create\<close>: only the client, the existence check, the
  load and the bundle lookups (second conjunct).
\<close>

theorem Start_bundle_mismatch:
  assumes client: "ext_error env s ''logging.OpenLogFile'' [LogFilePath env] = None"
      and ex: "ext_error env s ''api.Exists'' [sc_Name cfg] = None"
      and ld: "ext_error env s ''api.Load'' [sc_Name cfg] = None"
              "machines s (sc_Name cfg) = Some h"
      and bname: "ext_string env s ''Driver.GetBundleName'' [HostName h] = (b, None)"
                 "b \<noteq> []" "b \<noteq> filepath_Base (sc_BundlePath cfg)"
                 "ext_bundle env s ''bundle.GetCachedBundleInfo'' b = Inr meta"
  shows "Start env cfg (s, tr) =
           (startError (sc_Name cfg) ''Invalid bundle''
              (Err (''Bundle '' @ filepath_Base (sc_BundlePath cfg)
                    @ '' was requested, but the existing VM is using '' @ b)),
            (s, tr @ mismatchCalls env cfg h b))
         \<and> (\<forall>f args. Call f args \<in> set (mismatchCalls env cfg h b) \<longrightarrow>
               f \<in> set [''log.SetDebug'', ''logging.OpenLogFile'', ''log.SetOutWriter'',
                         ''log.SetErrWriter'', ''libmachine.NewClient'', ''api.Exists'',
                         ''client.Close'', ''logging.CloseLogFile'', ''api.Load'',
                         ''Driver.GetBundleName'', ''bundle.GetCachedBundleInfo''])"
proof (intro conjI)
  show "Start env cfg (s, tr) =
           (startError (sc_Name cfg) ''Invalid bundle''
              (Err (''Bundle '' @ filepath_Base (sc_BundlePath cfg)
                    @ '' was requested, but the existing VM is using '' @ b)),
            (s, tr @ mismatchCalls env cfg h b))"
    using Start_existing_mismatch [OF ld bname, of zeroLocals
        "tr @ clientCalls env (sc_Debug cfg) @ existsCalls env (sc_Name cfg)"]
    by (simp add: Start_existing_branch [OF client ex ld(2)] Start_rest_def andThen_def
        deferred_def closeClient_def unsetMachineLogging_def emit_def mismatchCalls_def)
  show "\<forall>f args. Call f args \<in> set (mismatchCalls env cfg h b) \<longrightarrow>
               f \<in> set [''log.SetDebug'', ''logging.OpenLogFile'', ''log.SetOutWriter'',
                         ''log.SetErrWriter'', ''libmachine.NewClient'', ''api.Exists'',
                         ''client.Close'', ''logging.CloseLogFile'', ''api.Load'',
                         ''Driver.GetBundleName'', ''bundle.GetCachedBundleInfo'']"
    unfolding mismatchCalls_def existsCalls_def clientCalls_def
    by auto
qed

text \<open>On the example: the instance of bundle 4.5.1 is started with the bundle 4.6.0.\<close>

theorem Start_bundle_mismatch_witness:
  "Start exampleEnv (exampleStart\<lparr>sc_BundlePath := ''/home/u/crc_libvirt_4.6.0.crcbundle''\<rparr>)
       (stoppedSys, []) =
     ((\<lparr>sr_Name = ''crc'', sr_Status = [], sr_KubeletStarted = False,
        sr_ClusterConfig = zeroClusterConfig\<rparr>,
       Some (Wrap ''Invalid bundle''
         (Err ''Bundle crc_libvirt_4.6.0.crcbundle was requested, but the existing VM is using crc_libvirt_4.5.1.crcbundle''))),
      (stoppedSys,
       mismatchCalls exampleEnv (exampleStart\<lparr>sc_BundlePath := ''/home/u/crc_libvirt_4.6.0.crcbundle''\<rparr>)
         exampleHost ''crc_libvirt_4.5.1.crcbundle''))
   \<and> Call ''Driver.Start'' [''crc'']
       \<notin> set (mismatchCalls exampleEnv
                (exampleStart\<lparr>sc_BundlePath := ''/home/u/crc_libvirt_4.6.0.crcbundle''\<rparr>)
                exampleHost ''crc_libvirt_4.5.1.crcbundle'')"
proof -
  have base: "filepath_Base ''/home/u/crc_libvirt_4.6.0.crcbundle'' = ''crc_libvirt_4.6.0.crcbundle''"
    by (simp add: filepath_Base_def Let_def)
  have h: "ext_error exampleEnv stoppedSys ''logging.OpenLogFile'' [LogFilePath exampleEnv] = None"
    "ext_error exampleEnv stoppedSys ''api.Exists''
       [sc_Name (exampleStart\<lparr>sc_BundlePath := ''/home/u/crc_libvirt_4.6.0.crcbundle''\<rparr>)] = None"
    "ext_error exampleEnv stoppedSys ''api.Load''
       [sc_Name (exampleStart\<lparr>sc_BundlePath := ''/home/u/crc_libvirt_4.6.0.crcbundle''\<rparr>)] = None"
    "machines stoppedSys
       (sc_Name (exampleStart\<lparr>sc_BundlePath := ''/home/u/crc_libvirt_4.6.0.crcbundle''\<rparr>))
       = Some exampleHost"
    "ext_string exampleEnv stoppedSys ''Driver.GetBundleName'' [HostName exampleHost] =
       (''crc_libvirt_4.5.1.crcbundle'', None)"
    "''crc_libvirt_4.5.1.crcbundle'' \<noteq> []"
    "''crc_libvirt_4.5.1.crcbundle'' \<noteq>
       filepath_Base (sc_BundlePath
         (exampleStart\<lparr>sc_BundlePath := ''/home/u/crc_libvirt_4.6.0.crcbundle''\<rparr>))"
    "ext_bundle exampleEnv stoppedSys ''bundle.GetCachedBundleInfo'' ''crc_libvirt_4.5.1.crcbundle''
       = Inr exampleBundle"
    by (simp_all add: base) (simp_all add: exampleEnv_def stoppedSys_def exampleStart_def)
  note t = Start_bundle_mismatch [OF h, of "[]"]
  have m: "Call f args \<in> set (mismatchCalls exampleEnv
              (exampleStart\<lparr>sc_BundlePath := ''/home/u/crc_libvirt_4.6.0.crcbundle''\<rparr>)
              exampleHost ''crc_libvirt_4.5.1.crcbundle'') \<Longrightarrow>
       f \<in> set [''log.SetDebug'', ''logging.OpenLogFile'', ''log.SetOutWriter'',
                         ''log.SetErrWriter'', ''libmachine.NewClient'', ''api.Exists'',
                         ''client.Close'', ''logging.CloseLogFile'', ''api.Load'',
                         ''Driver.GetBundleName'', ''bundle.GetCachedBundleInfo'']" for f args
    using t by blast
  show ?thesis
    using t m [of "''Driver.Start''" "[''crc'']"]
    by (auto simp: exampleStart_def startError_def base)
qed

subsection \<open>Start when the existence check fails\<close>

lemma grows_mem: "grows w w' \<Longrightarrow> x \<in> set (snd w) \<Longrightarrow> x \<in> set (snd w')"
  by (auto simp: grows_def)

lemma grows_deferred_closeClient: "grows w0 (snd rw) \<Longrightarrow> grows w0 (snd (deferred closeClient rw))"
  by (auto simp: grows_def deferred_def closeClient_def unsetMachineLogging_def emit_def)

lemma grows_rest_andThen:
  assumes "\<And>l w. grows w0 w \<Longrightarrow> grows w0 (snd (q l w))"
      and "grows w0 (snd (p l w))"
  shows "grows w0 (snd (Start_rest env cfg (andThen p q) l w))"
proof -
  obtain r w1 where pw: "p l w = (r, w1)"
    by (cases "p l w")
  then have g: "grows w0 w1"
    using assms(2) by simp
  show ?thesis
  proof (cases r)
    case (Inl a)
    then show ?thesis
      using pw g by (simp add: Start_rest_Inl)
  next
    case (Inr l1)
    then show ?thesis
      using pw grows_rest [of w0 q w1 env cfg l1, OF assms(1) g]
      by (simp add: Start_rest_Inr)
  qed
qed

lemma Start_create_attempts:
  assumes pull: "ext_string env s ''startConfig.GetPullSecret'' [] = (ps, None)"
      and cached: "ext_bundle env s ''bundle.GetCachedBundleInfo''
                     (filepath_Base (sc_BundlePath cfg)) = Inr meta"
      and disk: "ext_error env s ''CrcBundleInfo.CheckDiskImageSize'' [] = None"
      and nodes: "Nodes meta = node # others"
      and js: "\<forall>mc. json_driverOptions env mc = Inr js"
      and nh: "ext_newhost env s (DefaultDriver env) (DefaultDriverPath env) js = Inr vm"
  shows "Call ''api.Create'' [HostName vm] \<in> set (snd (snd (Start_create env cfg l (s, tr))))"
  using assms
  unfolding Start_create_def getCrcBundleInfo_def bundle_GetCachedBundleInfo_def createHost_def
    api_Create_def prim_defs
  by (simp split: prod.splits option.splits)

text \<open>
  C10. When the store's \<open>Exists\<close> returns an error, \<^verbatim>\<open>Exists\<close> returns \<open>false\<close> beside the
  wrapped error (first conjunct), and \<^verbatim>\<open>Start\<close>, which reads only the boolean, does not
  fail there: it runs the creation branch \<open>Start_create\<close> and then the steps after the VM
  start (second conjunct), whether or not the instance is recorded. Third conjunct: when
  the pull secret, the bundle metadata, the disk image check, the first node, the driver
  options and the new host are all obtained, \<^verbatim>\<open>api.Create\<close> is called for the new host.
\<close>

theorem Start_discards_Exists_error:
  assumes client: "ext_error env s ''logging.OpenLogFile'' [LogFilePath env] = None"
      and exfail: "ext_error env s ''api.Exists'' [sc_Name cfg] = Some e"
  shows "fst (Exists env (sc_Name cfg) (s, tr)) =
           (False, Some (Wrap ''Error checking if the host exists'' e))
         \<and> Start env cfg (s, tr) =
             deferred closeClient
               (Start_rest env cfg (andThen (Start_create env cfg) (Start_postVM env cfg))
                  zeroLocals
                  (s, tr @ clientCalls env (sc_Debug cfg) @ existsCalls env (sc_Name cfg)))
         \<and> (\<forall>ps meta node others js vm.
               ext_string env s ''startConfig.GetPullSecret'' [] = (ps, None)
               \<and> ext_bundle env s ''bundle.GetCachedBundleInfo''
                     (filepath_Base (sc_BundlePath cfg)) = Inr meta
               \<and> ext_error env s ''CrcBundleInfo.CheckDiskImageSize'' [] = None
               \<and> Nodes meta = node # others
               \<and> (\<forall>mc. json_driverOptions env mc = Inr js)
               \<and> ext_newhost env s (DefaultDriver env) (DefaultDriverPath env) js = Inr vm
               \<longrightarrow> Call ''api.Create'' [HostName vm] \<in> set (snd (snd (Start env cfg (s, tr)))))"
proof (intro conjI allI impI)
  show "fst (Exists env (sc_Name cfg) (s, tr)) =
           (False, Some (Wrap ''Error checking if the host exists'' e))"
    by (simp add: Exists_ok [OF client] exfail)
  show branch: "Start env cfg (s, tr) =
             deferred closeClient
               (Start_rest env cfg (andThen (Start_create env cfg) (Start_postVM env cfg))
                  zeroLocals
                  (s, tr @ clientCalls env (sc_Debug cfg) @ existsCalls env (sc_Name cfg)))"
    by (rule Start_create_branch [OF client exfail])
  fix ps meta node others js vm
  assume a: "ext_string env s ''startConfig.GetPullSecret'' [] = (ps, None)
               \<and> ext_bundle env s ''bundle.GetCachedBundleInfo''
                     (filepath_Base (sc_BundlePath cfg)) = Inr meta
               \<and> ext_error env s ''CrcBundleInfo.CheckDiskImageSize'' [] = None
               \<and> Nodes meta = node # others
               \<and> (\<forall>mc. json_driverOptions env mc = Inr js)
               \<and> ext_newhost env s (DefaultDriver env) (DefaultDriverPath env) js = Inr vm"
  let ?w = "(s, tr @ clientCalls env (sc_Debug cfg) @ existsCalls env (sc_Name cfg))"
  have m: "Call ''api.Create'' [HostName vm]
             \<in> set (snd (snd (Start_create env cfg zeroLocals ?w)))"
    using a by (intro Start_create_attempts) auto
  have "grows (snd (Start_create env cfg zeroLocals ?w))
          (snd (Start_rest env cfg (andThen (Start_create env cfg) (Start_postVM env cfg))
                  zeroLocals ?w))"
    by (intro grows_rest_andThen grows_postVM grows_refl)
  then have "grows (snd (Start_create env cfg zeroLocals ?w)) (snd (Start env cfg (s, tr)))"
    unfolding branch by (rule grows_deferred_closeClient)
  then show "Call ''api.Create'' [HostName vm] \<in> set (snd (snd (Start env cfg (s, tr))))"
    using m by (rule grows_mem)
qed

text \<open>
  On the example: the instance \<open>crc\<close> is recorded, the existence check is denied, and
  \<^verbatim>\<open>Start\<close> calls \<^verbatim>\<open>api.Create\<close> for it.
\<close>

theorem Start_discards_Exists_error_witness:
  "machines runningSys ''crc'' = Some exampleHost
   \<and> fst (Exists (exampleEnv\<lparr>ext_error := \<lambda>s f args.
            if f = ''api.Exists'' then Some (Err ''permission denied'') else None\<rparr>)
          ''crc'' (runningSys, []))
     = (False, Some (Wrap ''Error checking if the host exists'' (Err ''permission denied'')))
   \<and> Call ''api.Create'' [''crc'']
       \<in> set (snd (snd (Start (exampleEnv\<lparr>ext_error := \<lambda>s f args.
            if f = ''api.Exists'' then Some (Err ''permission denied'') else None\<rparr>)
          exampleStart (runningSys, []))))"
proof -
  let ?env = "exampleEnv\<lparr>ext_error := \<lambda>s f args.
            if f = ''api.Exists'' then Some (Err ''permission denied'') else None\<rparr>"
  have h: "ext_error ?env runningSys ''logging.OpenLogFile'' [LogFilePath ?env] = None"
    "ext_error ?env runningSys ''api.Exists'' [sc_Name exampleStart] = Some (Err ''permission denied'')"
    by (simp_all add: exampleEnv_def)
  note t = Start_discards_Exists_error [OF h, of "[]"]
  have pre: "ext_string ?env runningSys ''startConfig.GetPullSecret'' [] = ([], None)
               \<and> ext_bundle ?env runningSys ''bundle.GetCachedBundleInfo''
                     (filepath_Base (sc_BundlePath exampleStart)) = Inr exampleBundle
               \<and> ext_error ?env runningSys ''CrcBundleInfo.CheckDiskImageSize'' [] = None
               \<and> Nodes exampleBundle = ''console=ttyS0'' # []
               \<and> (\<forall>mc. json_driverOptions ?env mc = Inr ''{}'')
               \<and> ext_newhost ?env runningSys (DefaultDriver ?env) (DefaultDriverPath ?env) ''{}''
                    = Inr exampleHost"
    by (simp add: exampleEnv_def exampleBundle_def)
  have "Call ''api.Create'' [HostName exampleHost]
          \<in> set (snd (snd (Start ?env exampleStart (runningSys, []))))"
    using t pre by blast
  then show ?thesis
    using t by (simp add: exampleHost_def runningSys_def exampleStart_def)
qed

subsection \<open>Start: runs of steps\<close>

lemma andThen_assoc: "andThen (andThen p q) r = andThen p (andThen q r)"
  by (intro ext) (auto simp: andThen_def split: prod.splits sum.splits)

lemma Start_steps_certs:
  "Start_steps env cfg = andThen (Start_upto_certs env cfg) (Start_from_certs env cfg)"
  by (simp add: Start_steps_def Start_postVM_def Start_upto_certs_def andThen_assoc)

lemma Start_from_network_kubelet:
  "Start_from_network env cfg =
     andThen (Start_network_to_firstBoot env cfg) (Start_kubelet env cfg)"
  by (simp add: Start_from_network_def Start_from_dnsChecks_def Start_from_firstBoot_def
      Start_network_to_firstBoot_def andThen_assoc)


lemma grows_rest_result:
  assumes "grows w0 (snd (p l w))"
  shows "grows w0 (snd (Start_rest env cfg p l w))"
proof -
  obtain r w1 where pw: "p l w = (r, w1)"
    by (cases "p l w")
  then have g: "grows w0 w1"
    using assms by simp
  show ?thesis
    using pw g grows_cluster [OF g]
    by (cases r) (simp_all add: Start_rest_def)
qed

lemma keeps_andThen: "keeps_renewal p \<Longrightarrow> keeps_renewal q \<Longrightarrow> keeps_renewal (andThen p q)"
proof -
  assume kp: "keeps_renewal p" and kq: "keeps_renewal q"
  show ?thesis
    unfolding keeps_renewal_def
  proof (intro allI impI)
    fix l w l1 w1
    assume a: "andThen p q l w = (Inr l1, w1)"
    obtain r w' where pw: "p l w = (r, w')"
      by (cases "p l w")
    show "l_needsCertsRenewal l1 = l_needsCertsRenewal l"
    proof (cases r)
      case (Inl x)
      then show ?thesis using a pw by (simp add: andThen_def)
    next
      case (Inr l')
      then have "q l' w' = (Inr l1, w1)"
        using a pw by (simp add: andThen_def)
      then have "l_needsCertsRenewal l1 = l_needsCertsRenewal l'"
        using kq unfolding keeps_renewal_def by blast
      moreover have "l_needsCertsRenewal l' = l_needsCertsRenewal l"
        using kp pw Inr unfolding keeps_renewal_def by blast
      ultimately show ?thesis by simp
    qed
  qed
qed

lemma keeps_hostIP: "keeps_renewal (Start_hostIP env cfg)"
  unfolding keeps_renewal_def Start_hostIP_def
  by (auto split: prod.splits option.splits)

lemma keeps_network: "keeps_renewal (Start_network env cfg)"
  using keeps_hostIP [of env cfg]
  unfolding keeps_renewal_def Start_network_def
  by (auto split: prod.splits option.splits if_splits)

lemma keeps_dns: "keeps_renewal (Start_dns env cfg)"
  unfolding keeps_renewal_def Start_dns_def
  by (auto split: prod.splits option.splits sum.splits)

lemma keeps_dnsChecks: "keeps_renewal (Start_dnsChecks env cfg)"
  unfolding keeps_renewal_def Start_dnsChecks_def
  by (auto split: prod.splits option.splits)

lemma keeps_firstBoot: "keeps_renewal (Start_firstBoot env cfg)"
  unfolding keeps_renewal_def Start_firstBoot_def
  by (auto split: prod.splits option.splits if_splits)

lemma keeps_network_to_firstBoot: "keeps_renewal (Start_network_to_firstBoot env cfg)"
  unfolding Start_network_to_firstBoot_def
  by (intro keeps_andThen keeps_network keeps_dns keeps_dnsChecks keeps_firstBoot)

lemma Start_startKubelet_first:
  "grows (fst w, snd w @ [Log ''Info'' ''Starting OpenShift kubelet service'',
                         Call ''sd.Start'' [''kubelet'']])
     (snd (Start_startKubelet env cfg l w))"
proof -
  have x: "call_string env ''sd.Start'' [''kubelet'']
             (logging ''Info'' ''Starting OpenShift kubelet service'' w) =
           (ext_string env (fst w) ''sd.Start'' [''kubelet''],
            (fst w, snd w @ [Log ''Info'' ''Starting OpenShift kubelet service'',
                             Call ''sd.Start'' [''kubelet'']]))"
    by (simp add: call_string_def logging_def emit_def)
  show ?thesis
    unfolding Start_startKubelet_def x
    by (intro grows_rules grows_configureCluster grows_refl)
qed

subsection \<open>Start: the certificate probe\<close>

lemma Start_certs_error:
  assumes "ext_certs env (fst w) = (st, Some e)"
  shows "Start_certs env cfg l w =
           (if st = CertExpired then (Inr (l\<lparr>l_needsCertsRenewal := True\<rparr>), probed w)
            else (Inl (startError (sc_Name cfg) ''Failed to check certificate validity'' e),
                  probed w))"
  using assms
  unfolding Start_certs_def cluster_CheckCertsValidity_def probed_def logging_def emit_def
  by simp

lemma Start_at_certs:
  assumes client: "ext_error env s ''logging.OpenLogFile'' [LogFilePath env] = None"
      and reach: "Start_upto_certs env cfg zeroLocals (s, tr @ clientCalls env (sc_Debug cfg))
                    = (Inr l, w)"
  shows "Start env cfg (s, tr) =
           deferred closeClient (Start_rest env cfg (Start_from_certs env cfg) l w)"
  using reach
  by (simp add: Start_client [OF client] Start_steps_certs Start_rest_def andThen_def)

lemma Start_kubelet_renewal_fails:
  assumes "l_needsCertsRenewal l"
      and "ext_error env (fst w) ''cluster.RegenerateCertificates'' [] = Some e"
  shows "\<exists>evs. Start_kubelet env cfg l w =
           (Inl (startError (sc_Name cfg)
              ''Failed to renew TLS certificates: please check if a newer CodeReady Containers release is available''
              e), (fst w, snd w @ evs))
          \<and> Call ''sd.Start'' [''kubelet''] \<notin> set evs
          \<and> Call ''cluster.RegenerateCertificates'' [] \<in> set evs"
  using assms
  unfolding Start_kubelet_def call_error_def call_bool_def logging_def emit_def
  by (auto split: prod.splits option.splits)

lemma Start_kubelet_renewal_ok:
  assumes "l_needsCertsRenewal l"
      and "ext_error env (fst w) ''cluster.RegenerateCertificates'' [] = None"
  shows "grows (fst w, snd w @
            [Log ''Info''
               ''Cluster TLS certificates have expired, renewing them... [will take up to 5 minutes]'',
             Call ''cluster.RegenerateCertificates'' [],
             Log ''Info'' ''Starting OpenShift kubelet service'',
             Call ''sd.Start'' [''kubelet'']])
          (snd (Start_kubelet env cfg l w))"
proof -
  have "Start_kubelet env cfg l w =
          Start_startKubelet env cfg l
            (fst w, snd w @
              [Log ''Info''
                 ''Cluster TLS certificates have expired, renewing them... [will take up to 5 minutes]'',
               Call ''cluster.RegenerateCertificates'' []])"
    using assms
    unfolding Start_kubelet_def call_error_def logging_def emit_def
    by simp
  then show ?thesis
    using Start_startKubelet_first [of "(fst w, snd w @
              [Log ''Info''
                 ''Cluster TLS certificates have expired, renewing them... [will take up to 5 minutes]'',
               Call ''cluster.RegenerateCertificates'' []])" env cfg l]
    by simp
qed

text \<open>
  C4. Let \<^verbatim>\<open>Start\<close> reach the certificate probe (the steps before it succeed, leaving the
  locals \<open>l\<close> and the world \<open>w\<close>) and let the probe return an error \<open>e\<close> beside the state
  \<open>st\<close>. If \<open>st\<close> is not \<open>CertExpired\<close>, \<^verbatim>\<open>Start\<close> fails at once with ``Failed to check
  certificate validity'': after the probe only the cleanup runs. If \<open>st\<close> is \<open>CertExpired\<close>,
  \<^verbatim>\<open>Start\<close> goes on with the steps from the nameserver on, with \<open>needsCertsRenewal\<close> set;
  and when the steps up to the first-boot ones succeed (leaving \<open>l1\<close>, \<open>w1\<close>), the renewal
  is called next: if it fails with \<open>e1\<close>, \<^verbatim>\<open>Start\<close> fails with the renewal's own message and
  the kubelet service is never started; if it succeeds, the next call is the start of
  the kubelet service.
\<close>

theorem Start_certificate_probe:
  assumes client: "ext_error env s ''logging.OpenLogFile'' [LogFilePath env] = None"
      and reach: "Start_upto_certs env cfg zeroLocals (s, tr @ clientCalls env (sc_Debug cfg))
                    = (Inr l, w)"
      and probe: "ext_certs env (fst w) = (st, Some e)"
  shows "(st \<noteq> CertExpired \<longrightarrow>
            Start env cfg (s, tr) =
              (startError (sc_Name cfg) ''Failed to check certificate validity'' e,
               closeClient (probed w)))
         \<and> (st = CertExpired \<longrightarrow>
              Start env cfg (s, tr) =
                deferred closeClient
                  (Start_rest env cfg (Start_from_network env cfg)
                     (l\<lparr>l_needsCertsRenewal := True\<rparr>) (probed w))
              \<and> (\<forall>l1 w1.
                    Start_network_to_firstBoot env cfg (l\<lparr>l_needsCertsRenewal := True\<rparr>)
                      (probed w) = (Inr l1, w1) \<longrightarrow>
                    (\<forall>e1. ext_error env (fst w1) ''cluster.RegenerateCertificates'' [] = Some e1 \<longrightarrow>
                       fst (Start env cfg (s, tr)) =
                         startError (sc_Name cfg)
                           ''Failed to renew TLS certificates: please check if a newer CodeReady Containers release is available''
                           e1
                       \<and> (\<exists>evs. snd (snd (Start env cfg (s, tr))) = snd w1 @ evs
                                \<and> Call ''cluster.RegenerateCertificates'' [] \<in> set evs
                                \<and> Call ''sd.Start'' [''kubelet''] \<notin> set evs))
                    \<and> (ext_error env (fst w1) ''cluster.RegenerateCertificates'' [] = None \<longrightarrow>
                         (\<exists>evs. snd (snd (Start env cfg (s, tr))) =
                            snd w1 @
                            [Log ''Info''
                               ''Cluster TLS certificates have expired, renewing them... [will take up to 5 minutes]'',
                             Call ''cluster.RegenerateCertificates'' [],
                             Log ''Info'' ''Starting OpenShift kubelet service'',
                             Call ''sd.Start'' [''kubelet'']] @ evs))))"
proof (intro conjI impI allI)
  note at = Start_at_certs [OF client reach]
  note certs = Start_certs_error [OF probe, of cfg l]
  {
    assume "st \<noteq> CertExpired"
    then show "Start env cfg (s, tr) =
              (startError (sc_Name cfg) ''Failed to check certificate validity'' e,
               closeClient (probed w))"
      using certs
      by (simp add: at Start_from_certs_def Start_rest_def andThen_def deferred_def)
  }
  assume ex: "st = CertExpired"
  show go: "Start env cfg (s, tr) =
                deferred closeClient
                  (Start_rest env cfg (Start_from_network env cfg)
                     (l\<lparr>l_needsCertsRenewal := True\<rparr>) (probed w))"
    using certs ex
    by (simp add: at Start_from_certs_def Start_rest_def andThen_def)
  fix l1 w1
  assume mid: "Start_network_to_firstBoot env cfg (l\<lparr>l_needsCertsRenewal := True\<rparr>)
                      (probed w) = (Inr l1, w1)"
  have flag: "l_needsCertsRenewal l1"
    using keeps_network_to_firstBoot [of env cfg] mid
    unfolding keeps_renewal_def by fastforce
  have kub: "Start env cfg (s, tr) =
               deferred closeClient (Start_rest env cfg (Start_kubelet env cfg) l1 w1)"
    unfolding go Start_from_network_kubelet
    using mid by (simp add: Start_rest_def andThen_def)
  {
    fix e1
    assume f: "ext_error env (fst w1) ''cluster.RegenerateCertificates'' [] = Some e1"
    obtain evs where evs: "Start_kubelet env cfg l1 w1 =
           (Inl (startError (sc_Name cfg)
              ''Failed to renew TLS certificates: please check if a newer CodeReady Containers release is available''
              e1), (fst w1, snd w1 @ evs))"
          "Call ''sd.Start'' [''kubelet''] \<notin> set evs"
          "Call ''cluster.RegenerateCertificates'' [] \<in> set evs"
      using Start_kubelet_renewal_fails [OF flag f, of cfg] by blast
    show "fst (Start env cfg (s, tr)) =
                         startError (sc_Name cfg)
                           ''Failed to renew TLS certificates: please check if a newer CodeReady Containers release is available''
                           e1"
      by (simp add: kub Start_rest_def evs(1) deferred_def)
    show "\<exists>evs. snd (snd (Start env cfg (s, tr))) = snd w1 @ evs
                                \<and> Call ''cluster.RegenerateCertificates'' [] \<in> set evs
                                \<and> Call ''sd.Start'' [''kubelet''] \<notin> set evs"
      using evs(2,3)
      by (simp add: kub Start_rest_def evs(1) deferred_def closeClient_def
          unsetMachineLogging_def emit_def)
  }
  assume ok: "ext_error env (fst w1) ''cluster.RegenerateCertificates'' [] = None"
  have "grows (fst w1, snd w1 @
            [Log ''Info''
               ''Cluster TLS certificates have expired, renewing them... [will take up to 5 minutes]'',
             Call ''cluster.RegenerateCertificates'' [],
             Log ''Info'' ''Starting OpenShift kubelet service'',
             Call ''sd.Start'' [''kubelet'']])
          (snd (Start env cfg (s, tr)))"
    unfolding kub
    by (intro grows_deferred_closeClient grows_rest_result Start_kubelet_renewal_ok flag ok)
  then show "\<exists>evs. snd (snd (Start env cfg (s, tr))) =
                            snd w1 @
                            [Log ''Info''
                               ''Cluster TLS certificates have expired, renewing them... [will take up to 5 minutes]'',
                             Call ''cluster.RegenerateCertificates'' [],
                             Log ''Info'' ''Starting OpenShift kubelet service'',
                             Call ''sd.Start'' [''kubelet'']] @ evs"
    by (simp add: grows_def)
qed

text \<open>Unfolding the retry loop at a numeral, and the definitions that run the steps on the example.\<close>

lemma RetryAfter_loop_numeral:
  "RetryAfter_loop (numeral n) action d c w =
     (case action c w of
        ((None, c1), w1) \<Rightarrow> ((None, c1), w1)
      | ((Some e, c1), w1) \<Rightarrow>
          if \<not> is_retriable e then ((Some e, c1), w1)
          else if pred_numeral n = 0 then ((Some e, c1), w1)
          else RetryAfter_loop (pred_numeral n) action d c1 (time_Sleep d w1))"
  by (simp add: numeral_eq_Suc)

lemmas run_defs =
  Start_upto_certs_def Start_network_to_firstBoot_def Start_upto_dnsChecks_def andThen_def
  Start_preVM_def Exists_def Start_existing_def Start_create_def createHost_def api_Create_def
  getCrcBundleInfo_def bundle_Extract_def
  getBundleMetadataFromDriver_def bundle_GetCachedBundleInfo_def IsRunning_def
  Start_connect_def getClusterConfig_def getProxyConfig_def IsEnabled_def AddNoProxy_def
  Start_certs_def cluster_CheckCertsValidity_def
  Start_network_def addNameServerToInstance_def Start_hostIP_def RetryAfter_def
  RetryAfter_loop_numeral determineHostIP_def
  Start_dns_def ApplyToEnvironment_def Start_dnsChecks_def
  Start_firstBoot_def updateSSHKeyPair_def
  probed_def clientCalls_def time_Sleep_def prim_defs
  example_defs exampleStart_def filepath_Base_def Let_def zeroLocals_def

text \<open>
  On the example, starting the stopped instance: with expired certificates and a renewal
  that times out, and with a probe that fails for another reason.
\<close>

theorem Start_certificate_probe_witness:
  "fst (Start (exampleEnv\<lparr>
          ext_certs := \<lambda>s. (CertExpired, Some (Err ''x509: certificate has expired'')),
          ext_error := \<lambda>s f args.
            if f = ''cluster.RegenerateCertificates'' then Some (Err ''renewal timed out'')
            else None\<rparr>) exampleStart (stoppedSys, []))
     = (\<lparr>sr_Name = ''crc'', sr_Status = [], sr_KubeletStarted = False,
         sr_ClusterConfig = zeroClusterConfig\<rparr>,
        Some (Wrap
          ''Failed to renew TLS certificates: please check if a newer CodeReady Containers release is available''
          (Err ''renewal timed out'')))
   \<and> fst (Start (exampleEnv\<lparr>
          ext_certs := \<lambda>s. (Unknown, Some (Err ''ssh: connection reset''))\<rparr>)
          exampleStart (stoppedSys, []))
     = (\<lparr>sr_Name = ''crc'', sr_Status = [], sr_KubeletStarted = False,
         sr_ClusterConfig = zeroClusterConfig\<rparr>,
        Some (Wrap ''Failed to check certificate validity'' (Err ''ssh: connection reset'')))"
proof -
  let ?A = "exampleEnv\<lparr>
          ext_certs := \<lambda>s. (CertExpired, Some (Err ''x509: certificate has expired'')),
          ext_error := \<lambda>s f args.
            if f = ''cluster.RegenerateCertificates'' then Some (Err ''renewal timed out'')
            else None\<rparr>"
  let ?B = "exampleEnv\<lparr>
          ext_certs := \<lambda>s. (Unknown, Some (Err ''ssh: connection reset''))\<rparr>"
  have "\<exists>l w l1 w1. Start_upto_certs ?A exampleStart zeroLocals
      (stoppedSys, [] @ clientCalls ?A (sc_Debug exampleStart)) = (Inr l, w)
    \<and> Start_network_to_firstBoot ?A exampleStart (l\<lparr>l_needsCertsRenewal := True\<rparr>)
          (probed w) = (Inr l1, w1)"
    by (simp add: run_defs)
  then obtain l w l1 w1 where
    reach: "Start_upto_certs ?A exampleStart zeroLocals
      (stoppedSys, [] @ clientCalls ?A (sc_Debug exampleStart)) = (Inr l, w)"
    and mid: "Start_network_to_firstBoot ?A exampleStart (l\<lparr>l_needsCertsRenewal := True\<rparr>)
          (probed w) = (Inr l1, w1)"
    by blast
  have client: "ext_error ?A stoppedSys ''logging.OpenLogFile'' [LogFilePath ?A] = None"
    by (simp add: exampleEnv_def)
  have probe: "ext_certs ?A (fst w) = (CertExpired, Some (Err ''x509: certificate has expired''))"
    by (simp add: exampleEnv_def)
  have fail: "ext_error ?A (fst w1) ''cluster.RegenerateCertificates'' [] =
                Some (Err ''renewal timed out'')"
    by (simp add: exampleEnv_def)
  have a: "fst (Start ?A exampleStart (stoppedSys, [])) =
             startError (sc_Name exampleStart)
               ''Failed to renew TLS certificates: please check if a newer CodeReady Containers release is available''
               (Err ''renewal timed out'')"
    using Start_certificate_probe [OF client reach probe] mid fail by blast
  have "\<exists>l w. Start_upto_certs ?B exampleStart zeroLocals
      (stoppedSys, [] @ clientCalls ?B (sc_Debug exampleStart)) = (Inr l, w)"
    by (simp add: run_defs)
  then obtain l' w' where
    reach': "Start_upto_certs ?B exampleStart zeroLocals
      (stoppedSys, [] @ clientCalls ?B (sc_Debug exampleStart)) = (Inr l', w')"
    by blast
  have client': "ext_error ?B stoppedSys ''logging.OpenLogFile'' [LogFilePath ?B] = None"
    by (simp add: exampleEnv_def)
  have probe': "ext_certs ?B (fst w') = (Unknown, Some (Err ''ssh: connection reset''))"
    by (simp add: exampleEnv_def)
  have b: "fst (Start ?B exampleStart (stoppedSys, [])) =
             startError (sc_Name exampleStart) ''Failed to check certificate validity''
               (Err ''ssh: connection reset'')"
    using Start_certificate_probe [OF client' reach' probe'] by simp
  show ?thesis
    using a b by (simp add: startError_def exampleStart_def)
qed

subsection \<open>Start: the DNS checks\<close>






subsection \<open>The retry primitive and its two uses\<close>












end
